theory Spec2Isabelle
  imports Complex_Main "HOL-Library.Sublist"
begin

section \<open>JavaScript values\<close>

text \<open>
  The program is JavaScript (Node.js). Strings are modelled as \<^typ>\<open>string\<close>; lengths and
  slices count characters, which agrees with JavaScript's UTF-16 code units on ASCII text
  (API keys, flag values, JSON field names).

  A JavaScript number is an IEEE double. The model keeps a finite double as the decimal
  that JavaScript prints for it, the shortest one that names it: \<open>Finite m d\<close> is the
  number \<open>m / 10 ^ d\<close>, in lowest form (\<open>d = 0\<close>, or \<open>m\<close> is not a multiple of 10).
  Negative zero is not distinguished from zero (both print as \<open>0\<close>). \<open>Infinity neg\<close> is
  negative when \<open>neg\<close>.
\<close>

datatype jsnum = NaN | Infinity bool | Finite int nat

datatype jsval =
    Undefined
  | Null
  | Bool bool
  | Num jsnum
  | Str string
  | Arr "jsval list"
  | Obj "(string \<times> jsval) list"

text \<open>An error object as the code reads it: its \<open>message\<close>, and for an error raised by
  axios whether a \<open>request\<close> is attached and the \<open>response\<close> (status and parsed body), if
  one arrived.\<close>

datatype js_error =
    JsError string
  | JsTypeError string
  | AxiosError string bool "(nat \<times> jsval) option"

fun error_message :: "js_error \<Rightarrow> string" where
  "error_message (JsError m) = m"
| "error_message (JsTypeError m) = m"
| "error_message (AxiosError m rq rs) = m"

fun error_request :: "js_error \<Rightarrow> bool" where
  "error_request (AxiosError m rq rs) = rq"
| "error_request e = False"

fun error_response :: "js_error \<Rightarrow> (nat \<times> jsval) option" where
  "error_response (AxiosError m rq rs) = rs"
| "error_response e = None"

subsection \<open>Numbers and text\<close>

definition digit_char :: "nat \<Rightarrow> char" where
  "digit_char d = ''0123456789abcdef'' ! d"

fun nat_digits :: "nat \<Rightarrow> string" where
  "nat_digits n =
     (if n < 10 then [digit_char n] else nat_digits (n div 10) @ [digit_char (n mod 10)])"

declare nat_digits.simps [simp del]

definition strip_zeros :: "string \<Rightarrow> string" where
  "strip_zeros s = rev (dropWhile (\<lambda>c. c = CHR ''0'') (rev s))"

text \<open>\<open>Number::toString\<close> for a positive number with significant digits \<open>s\<close> whose decimal
  point stands after \<open>n\<close> digits: plain notation for \<open>-6 < n \<le> 21\<close>, exponent notation
  otherwise.\<close>

definition digits_to_string :: "string \<Rightarrow> int \<Rightarrow> string" where
  "digits_to_string s n =
     (let k = int (length s)
      in if k \<le> n \<and> n \<le> 21 then s @ replicate (nat (n - k)) CHR ''0''
         else if 0 < n \<and> n \<le> 21 then take (nat n) s @ ''.'' @ drop (nat n) s
         else if - 6 < n \<and> n \<le> 0 then ''0.'' @ replicate (nat (- n)) CHR ''0'' @ s
         else (if k = 1 then s else take 1 s @ ''.'' @ drop 1 s) @ ''e''
              @ (if n - 1 < 0 then ''-'' else ''+'') @ nat_digits (nat \<bar>n - 1\<bar>))"

fun number_to_string :: "jsnum \<Rightarrow> string" where
  "number_to_string NaN = ''NaN''"
| "number_to_string (Infinity neg) = (if neg then ''-Infinity'' else ''Infinity'')"
| "number_to_string (Finite m d) =
     (if m = 0 then ''0''
      else (if m < 0 then ''-'' else []) @
           digits_to_string (strip_zeros (nat_digits (nat \<bar>m\<bar>)))
             (int (length (nat_digits (nat \<bar>m\<bar>))) - int d))"

fun normalize_decimal :: "int \<Rightarrow> nat \<Rightarrow> int \<times> nat" where
  "normalize_decimal m 0 = (m, 0)"
| "normalize_decimal m (Suc d) =
     (if m mod 10 = 0 then normalize_decimal (m div 10) d else (m, Suc d))"

definition is_digit :: "char \<Rightarrow> bool" where
  "is_digit c = (c \<in> set ''0123456789'')"

definition digit_value :: "char \<Rightarrow> nat" where
  "digit_value c = of_char c - 48"

definition digits_value :: "string \<Rightarrow> nat" where
  "digits_value ds = foldl (\<lambda>acc c. 10 * acc + digit_value c) 0 ds"

text \<open>Text outside ASCII is held as its UTF-8 bytes. The white space that \<open>parseFloat\<close>
  and \<open>trim\<close> skip is JavaScript's \<open>WhiteSpace\<close> and \<open>LineTerminator\<close>: the characters 9
  to 13 and 32, \<open>U+00A0\<close>, \<open>U+1680\<close>, \<open>U+2000\<close> to \<open>U+200A\<close>, \<open>U+2028\<close>, \<open>U+2029\<close>,
  \<open>U+202F\<close>, \<open>U+205F\<close>, \<open>U+3000\<close> and \<open>U+FEFF\<close>.\<close>

definition white_space :: "string list" where
  "white_space =
     [[CHR 0x09], [CHR 0x0A], [CHR 0x0B], [CHR 0x0C], [CHR 0x0D], [CHR 0x20],
      [CHR 0xC2, CHR 0xA0],
      [CHR 0xE1, CHR 0x9A, CHR 0x80],
      [CHR 0xE2, CHR 0x80, CHR 0x80], [CHR 0xE2, CHR 0x80, CHR 0x81],
      [CHR 0xE2, CHR 0x80, CHR 0x82], [CHR 0xE2, CHR 0x80, CHR 0x83],
      [CHR 0xE2, CHR 0x80, CHR 0x84], [CHR 0xE2, CHR 0x80, CHR 0x85],
      [CHR 0xE2, CHR 0x80, CHR 0x86], [CHR 0xE2, CHR 0x80, CHR 0x87],
      [CHR 0xE2, CHR 0x80, CHR 0x88], [CHR 0xE2, CHR 0x80, CHR 0x89],
      [CHR 0xE2, CHR 0x80, CHR 0x8A],
      [CHR 0xE2, CHR 0x80, CHR 0xA8], [CHR 0xE2, CHR 0x80, CHR 0xA9],
      [CHR 0xE2, CHR 0x80, CHR 0xAF],
      [CHR 0xE2, CHR 0x81, CHR 0x9F],
      [CHR 0xE3, CHR 0x80, CHR 0x80],
      [CHR 0xEF, CHR 0xBB, CHR 0xBF]]"

text \<open>Dropping from the front of a text, as long as one of the given texts stands
  there.\<close>

function skip_any :: "string list \<Rightarrow> string \<Rightarrow> string" where
  "skip_any ps s =
     (case find (\<lambda>p. p \<noteq> [] \<and> prefix p s) ps of
        None \<Rightarrow> s
      | Some p \<Rightarrow> skip_any ps (drop (length p) s))"
  by pat_completeness auto

termination
proof (relation "measure (\<lambda>(ps, s). length s)")
  show "wf (measure (\<lambda>(ps, s). length s))"
    by simp
next
  fix ps :: "string list" and s p :: string
  assume "find (\<lambda>p. p \<noteq> [] \<and> prefix p s) ps = Some p"
  then have "p \<noteq> []" and "prefix p s"
    by (auto simp: find_Some_iff)
  then show "((ps, drop (length p) s), (ps, s)) \<in> measure (\<lambda>(ps, s). length s)"
    by (auto simp: prefix_def)
qed

declare skip_any.simps [simp del]

definition trimStart :: "string \<Rightarrow> string" where
  "trimStart s = skip_any white_space s"

definition trimEnd :: "string \<Rightarrow> string" where
  "trimEnd s = rev (skip_any (map rev white_space) (rev s))"

definition trim :: "string \<Rightarrow> string" where
  "trim s = trimEnd (trimStart s)"

text \<open>
  What the engine computes on doubles beyond the short decimals stays uninterpreted, as
  parameters of the model: \<open>(v * 100).toFixed(4)\<close>; \<open>ToNumber\<close> of a string; and, for a
  decimal \<open>m * 10 ^ e\<close> with its sign that is not short, the double nearest to it.
  Every theorem below holds for all values of the three.
\<close>

record engine =
  percent4 :: "jsval \<Rightarrow> string"
  string_to_number :: "string \<Rightarrow> jsnum"
  decimal_to_double :: "bool \<Rightarrow> nat \<Rightarrow> int \<Rightarrow> jsnum"

text \<open>A decimal is short when it has at most 15 significant digits and lies between
  \<open>1e-300\<close> and \<open>1e300\<close> in size: it is then the shortest decimal of the double nearest
  to it, so reading it gives the number that prints as it was written.\<close>

definition short_decimal :: "nat \<Rightarrow> int \<Rightarrow> bool" where
  "short_decimal m e =
     (length (strip_zeros (nat_digits m)) \<le> 15
      \<and> - 300 \<le> int (length (nat_digits m)) + e
      \<and> int (length (nat_digits m)) + e \<le> 300)"

text \<open>The number \<open>m * 10 ^ e\<close> with its sign, as a double.\<close>

definition round_to_double :: "engine \<Rightarrow> bool \<Rightarrow> nat \<Rightarrow> int \<Rightarrow> jsnum" where
  "round_to_double eng neg m e =
     (let sgn = (if neg then - 1 else 1 :: int)
      in if m = 0 then Finite 0 0
         else if short_decimal m e
         then (if 0 \<le> e then Finite (sgn * int (m * 10 ^ nat e)) 0
               else case normalize_decimal (sgn * int m) (nat (- e)) of
                      (m', d) \<Rightarrow> Finite m' d)
         else decimal_to_double eng neg m e)"

text \<open>An exponent part counts only when digits follow the \<open>e\<close> and its sign.\<close>

definition exponent_part :: "string \<Rightarrow> int" where
  "exponent_part s =
     (case s of
        c # r \<Rightarrow>
          if c = CHR ''e'' \<or> c = CHR ''E''
          then (let (neg, r') = (case r of
                                  x # xs \<Rightarrow> if x = CHR ''-'' then (True, xs)
                                            else if x = CHR ''+'' then (False, xs)
                                            else (False, r)
                                | [] \<Rightarrow> (False, r));
                     ds = takeWhile is_digit r'
                in if ds = [] then 0
                   else if neg then - int (digits_value ds) else int (digits_value ds))
          else 0
      | [] \<Rightarrow> 0)"

text \<open>The built-in \<open>parseFloat\<close>: leading white space is skipped, the longest prefix
  that is a decimal literal is read, and what follows it is ignored; with no such
  prefix the result is \<open>NaN\<close>.\<close>

definition parseFloat :: "engine \<Rightarrow> string \<Rightarrow> jsnum" where
  "parseFloat eng inputString =
     (let trimmed = trimStart inputString;
          (neg, body) = (case trimmed of
                           c # r \<Rightarrow> if c = CHR ''-'' then (True, r)
                                     else if c = CHR ''+'' then (False, r)
                                     else (False, trimmed)
                         | [] \<Rightarrow> (False, trimmed))
      in if take 8 body = ''Infinity'' then Infinity neg
         else (let ip = takeWhile is_digit body;
                   r1 = dropWhile is_digit body;
                   fp = (case r1 of
                           c # r \<Rightarrow> if c = CHR ''.'' then takeWhile is_digit r else []
                         | [] \<Rightarrow> []);
                   r2 = (case r1 of
                           c # r \<Rightarrow> if c = CHR ''.'' then dropWhile is_digit r else r1
                         | [] \<Rightarrow> r1)
               in if ip = [] \<and> fp = [] then NaN
                  else round_to_double eng neg (digits_value (ip @ fp))
                         (exponent_part r2 - int (length fp))))"

subsection \<open>Values\<close>

definition join :: "string \<Rightarrow> string list \<Rightarrow> string" where
  "join sep xs = (case xs of [] \<Rightarrow> [] | y # ys \<Rightarrow> foldl (\<lambda>acc s. acc @ sep @ s) y ys)"

fun truthy :: "jsval \<Rightarrow> bool" where
  "truthy Undefined = False"
| "truthy Null = False"
| "truthy (Bool b) = b"
| "truthy (Num NaN) = False"
| "truthy (Num (Infinity neg)) = True"
| "truthy (Num (Finite m d)) = (m \<noteq> 0)"
| "truthy (Str s) = (s \<noteq> [])"
| "truthy (Arr xs) = True"
| "truthy (Obj kvs) = True"

definition nullish :: "jsval \<Rightarrow> bool" where
  "nullish v = (v = Undefined \<or> v = Null)"

text \<open>\<open>ToString\<close>, as string concatenation, template literals, \<open>String(v)\<close> and chalk
  apply it. An array prints its elements joined by commas, \<open>null\<close> and \<open>undefined\<close>
  elements as nothing.\<close>

fun to_string :: "jsval \<Rightarrow> string" where
  "to_string Undefined = ''undefined''"
| "to_string Null = ''null''"
| "to_string (Bool b) = (if b then ''true'' else ''false'')"
| "to_string (Num n) = number_to_string n"
| "to_string (Str s) = s"
| "to_string (Arr xs) =
     join '','' (map (\<lambda>x. if x = Undefined \<or> x = Null then [] else to_string x) xs)"
| "to_string (Obj kvs) = ''[object Object]''"

text \<open>\<open>a || b\<close> and \<open>a ?? b\<close>.\<close>

definition js_or :: "jsval \<Rightarrow> jsval \<Rightarrow> jsval" where
  "js_or a b = (if truthy a then a else b)"

definition coalesce :: "jsval \<Rightarrow> jsval \<Rightarrow> jsval" where
  "coalesce a b = (if nullish a then b else a)"

text \<open>Reading a property. The objects here come from parsed JSON or are built by the
  program, so an object has the properties of its list (the first entry of a name
  counts) and no others; strings and arrays have \<open>length\<close>; any other read gives
  \<open>undefined\<close>. Reading from \<open>null\<close> or \<open>undefined\<close> throws, except through \<open>?.\<close>.\<close>

definition field :: "jsval \<Rightarrow> string \<Rightarrow> jsval" where
  "field v k =
     (case v of
        Obj kvs \<Rightarrow> (case map_of kvs k of Some x \<Rightarrow> x | None \<Rightarrow> Undefined)
      | Arr xs \<Rightarrow> if k = ''length'' then Num (Finite (int (length xs)) 0) else Undefined
      | Str s \<Rightarrow> if k = ''length'' then Num (Finite (int (length s)) 0) else Undefined
      | _ \<Rightarrow> Undefined)"

definition read_prop :: "jsval \<Rightarrow> string \<Rightarrow> js_error + jsval" where
  "read_prop v k =
     (if nullish v
      then Inl (JsTypeError (''Cannot read properties of '' @ to_string v
                  @ '' (reading '' @ [CHR 0x27] @ k @ [CHR 0x27] @ '')''))
      else Inr (field v k))"

definition opt_chain :: "jsval \<Rightarrow> string \<Rightarrow> jsval" where
  "opt_chain v k = (if nullish v then Undefined else field v k)"

subsection \<open>JSON.stringify\<close>

definition hex2 :: "nat \<Rightarrow> string" where
  "hex2 n = [digit_char (n div 16), digit_char (n mod 16)]"

definition quote_char :: "char \<Rightarrow> string" where
  "quote_char c =
     (if c = CHR 0x22 then [CHR 0x5C, CHR 0x22]
      else if c = CHR 0x5C then [CHR 0x5C, CHR 0x5C]
      else if c = CHR 0x08 then [CHR 0x5C, CHR ''b'']
      else if c = CHR 0x0C then [CHR 0x5C, CHR ''f'']
      else if c = CHR 0x0A then [CHR 0x5C, CHR ''n'']
      else if c = CHR 0x0D then [CHR 0x5C, CHR ''r'']
      else if c = CHR 0x09 then [CHR 0x5C, CHR ''t'']
      else if (of_char c :: nat) < 32
           then [CHR 0x5C, CHR ''u'', CHR ''0'', CHR ''0''] @ hex2 (of_char c)
      else [c])"

definition quote :: "string \<Rightarrow> string" where
  "quote s = [CHR 0x22] @ concat (map quote_char s) @ [CHR 0x22]"

text \<open>\<open>JSON.stringify(value, null, gap)\<close> at indentation \<open>ind\<close>; \<open>gap\<close> is empty for the
  compact form. \<open>undefined\<close> has no JSON text (\<open>None\<close>): it is left out of an object and is
  \<open>null\<close> in an array, as are \<open>NaN\<close> and the infinities everywhere.\<close>

fun stringify :: "string \<Rightarrow> string \<Rightarrow> jsval \<Rightarrow> string option" where
  "stringify gap ind Undefined = None"
| "stringify gap ind Null = Some ''null''"
| "stringify gap ind (Bool b) = Some (if b then ''true'' else ''false'')"
| "stringify gap ind (Num n) =
     Some (case n of Finite m d \<Rightarrow> number_to_string n | _ \<Rightarrow> ''null'')"
| "stringify gap ind (Str s) = Some (quote s)"
| "stringify gap ind (Arr xs) =
     (let items = map (\<lambda>x. case stringify gap (ind @ gap) x of
                              None \<Rightarrow> ''null'' | Some t \<Rightarrow> t) xs
      in Some (if items = [] then ''[]''
               else if gap = [] then ''['' @ join '','' items @ '']''
               else ''['' @ [CHR 0x0A] @ ind @ gap
                    @ join ('','' @ [CHR 0x0A] @ ind @ gap) items
                    @ [CHR 0x0A] @ ind @ '']''))"
| "stringify gap ind (Obj kvs) =
     (let members = concat (map (\<lambda>(k, v). case stringify gap (ind @ gap) v of
                                None \<Rightarrow> []
                              | Some t \<Rightarrow>
                                  [quote k @ (if gap = [] then '':'' else '': '') @ t]) kvs)
      in Some (if members = [] then ''{}''
               else if gap = [] then ''{'' @ join '','' members @ ''}''
               else ''{'' @ [CHR 0x0A] @ ind @ gap
                    @ join ('','' @ [CHR 0x0A] @ ind @ gap) members
                    @ [CHR 0x0A] @ ind @ ''}''))"

definition JSON_stringify :: "jsval \<Rightarrow> jsval" where
  "JSON_stringify v = (case stringify [] [] v of None \<Rightarrow> Undefined | Some t \<Rightarrow> Str t)"

text \<open>\<open>encodeURIComponent\<close> on the bytes of a string: letters, digits and
  \<open>- _ . ! ~ * ' ( )\<close> stay, every other byte becomes \<open>%XX\<close>.\<close>

definition unreserved :: "char \<Rightarrow> bool" where
  "unreserved c =
     (c \<in> set ''ABCDEFGHIJKLMNOPQRSTUVWXYZabcdefghijklmnopqrstuvwxyz0123456789-_.!~*()''
      \<or> c = CHR 0x27)"

definition upper_hex :: "nat \<Rightarrow> char" where
  "upper_hex d = ''0123456789ABCDEF'' ! d"

definition encodeURIComponent :: "string \<Rightarrow> string" where
  "encodeURIComponent s =
     concat (map (\<lambda>c. if unreserved c then [c]
                       else [CHR ''%'', upper_hex (of_char c div 16),
                             upper_hex (of_char c mod 16)]) s)"

text \<open>How a piece of code completes: normally, by a \<open>throw\<close>, or by \<open>process.exit(n)\<close>.\<close>

datatype 'a completion = Normal 'a | Thrown js_error | Exited nat

text \<open>\<open>String.prototype.slice(start, end)\<close>: negative indices count from the end, both
  are clamped to the string, and a missing \<open>end\<close> is the length.\<close>

definition rel_index :: "nat \<Rightarrow> int \<Rightarrow> nat" where
  "rel_index len i = (if i < 0 then nat (max (int len + i) 0) else min (nat i) len)"

definition slice :: "string \<Rightarrow> int \<Rightarrow> int option \<Rightarrow> string" where
  "slice s start end =
     (let len = length s;
          from = rel_index len start;
          to = (case end of None \<Rightarrow> len | Some e \<Rightarrow> rel_index len e)
      in take (to - from) (drop from s))"

section \<open>The process: console, spinner, network\<close>

datatype spin_event = SpinStart string | SpinSucceed string | SpinFail string

record http_request =
  req_baseURL :: string
  req_authorization :: string
  req_content_type :: string
  req_timeout :: nat
  req_method :: string
  req_url :: string
  req_params :: "jsval option"
  req_data :: "jsval option"

text \<open>Everything an invocation does to the outside: lines written with \<open>console.log\<close>
  and \<open>console.error\<close>, the spinner's transitions, and the requests made of axios (one
  for each call of \<open>client.get\<close>, \<open>post\<close>, \<open>put\<close> or \<open>delete\<close>), each in order.\<close>

record io =
  stdout :: "string list"
  stderr :: "string list"
  spinner :: "spin_event list"
  requests :: "http_request list"

definition io0 :: io where
  "io0 = \<lparr>stdout = [], stderr = [], spinner = [], requests = []\<rparr>"

definition console_log :: "string \<Rightarrow> io \<Rightarrow> io" where
  "console_log s w = w\<lparr>stdout := stdout w @ [s]\<rparr>"

definition console_error :: "string \<Rightarrow> io \<Rightarrow> io" where
  "console_error s w = w\<lparr>stderr := stderr w @ [s]\<rparr>"

definition spin :: "spin_event \<Rightarrow> io \<Rightarrow> io" where
  "spin e w = w\<lparr>spinner := spinner w @ [e]\<rparr>"

section \<open>config.js\<close>

text \<open>
  The two sources of configuration: the process environment, where a variable is unset
  (\<open>None\<close>, JavaScript's \<open>undefined\<close>) or set to a string, possibly the empty one; and the
  Conf store, where a field was persisted or not. \<open>config.get\<close> answers with the schema's
  default for a field that was never persisted.
\<close>

record config =
  TAXJAR_API_KEY :: "string option"
  TAXJAR_BASE_URL :: "string option"
  stored_apiKey :: "string option"
  stored_baseUrl :: "string option"
  config_path :: string

definition config_get_apiKey :: "config \<Rightarrow> string" where
  "config_get_apiKey c = (case stored_apiKey c of None \<Rightarrow> [] | Some k \<Rightarrow> k)"

definition config_get_baseUrl :: "config \<Rightarrow> string" where
  "config_get_baseUrl c =
     (case stored_baseUrl c of None \<Rightarrow> ''https://api.taxjar.com/v2'' | Some u \<Rightarrow> u)"

text \<open>\<open>a || b\<close> on strings: the left operand when it is truthy, that is, when it is
  neither \<open>undefined\<close> nor the empty string.\<close>

definition or_else :: "string option \<Rightarrow> string \<Rightarrow> string" where
  "or_else a b = (case a of None \<Rightarrow> b | Some s \<Rightarrow> if s = [] then b else s)"

definition getApiKey :: "config \<Rightarrow> io \<Rightarrow> string completion \<times> io" where
  "getApiKey c w =
     (let apiKey = or_else (TAXJAR_API_KEY c) (config_get_apiKey c)
      in if apiKey = []
         then (Exited 1,
               console_error ''Or set the TAXJAR_API_KEY environment variable.''
                (console_error ''  taxjar config set --api-key <your-api-key>''
                  (console_error ''Set your API key with:''
                    (console_error ''Error: No API key configured.'' w))))
         else (Normal apiKey, w))"

definition setApiKey :: "string \<Rightarrow> config \<Rightarrow> config" where
  "setApiKey key c = c\<lparr>stored_apiKey := Some key\<rparr>"

definition getBaseUrl :: "config \<Rightarrow> string" where
  "getBaseUrl c = or_else (TAXJAR_BASE_URL c) (config_get_baseUrl c)"

record shown_config =
  apiKey :: string
  baseUrl :: string
  configPath :: string

definition showConfig :: "config \<Rightarrow> shown_config" where
  "showConfig c =
     (let apiKey = or_else (Some (config_get_apiKey c)) (or_else (TAXJAR_API_KEY c) []);
          baseUrl = getBaseUrl c;
          masked = (if apiKey \<noteq> []
                    then slice apiKey 0 (Some 4) @ ''****'' @ slice apiKey (- 4) None
                    else ''(not set)'')
      in \<lparr>apiKey = masked, baseUrl = baseUrl, configPath = config_path c\<rparr>)"


section \<open>api.js: the client\<close>

record axios_client =
  client_baseURL :: string
  client_authorization :: string
  client_content_type :: string
  client_timeout :: nat

text \<open>\<open>createClient\<close> reads the credential on every call. When \<open>getApiKey\<close> ends the
  process, no client exists and nothing later in the caller runs.\<close>

definition createClient :: "config \<Rightarrow> io \<Rightarrow> axios_client completion \<times> io" where
  "createClient c w =
     (case getApiKey c w of
        (Normal key, w') \<Rightarrow>
          (Normal \<lparr>client_baseURL = getBaseUrl c,
                   client_authorization = ''Bearer '' @ key,
                   client_content_type = ''application/json'',
                   client_timeout = 30000\<rparr>, w')
      | (Thrown e, w') \<Rightarrow> (Thrown e, w')
      | (Exited n, w') \<Rightarrow> (Exited n, w'))"

text \<open>What becomes of a request: the service answers with a status and a body (parsed
  as JSON), or no answer arrives (no connection, or the 30 seconds pass), or the request
  cannot be set up at all. axios resolves for a status from 200 to 299 and rejects in
  every other case, with the response attached when there is one.\<close>

datatype outcome = Responded nat jsval | NoResponse string | NotSent string

type_synonym network = "http_request \<Rightarrow> outcome"

definition axios_request ::
  "axios_client \<Rightarrow> string \<Rightarrow> string \<Rightarrow> jsval option \<Rightarrow> jsval option \<Rightarrow> network \<Rightarrow> io
     \<Rightarrow> (nat \<times> jsval) completion \<times> io" where
  "axios_request client method u ps d net w =
     (let req = \<lparr>req_baseURL = client_baseURL client,
                 req_authorization = client_authorization client,
                 req_content_type = client_content_type client,
                 req_timeout = client_timeout client,
                 req_method = method, req_url = u, req_params = ps, req_data = d\<rparr>;
          w' = w\<lparr>requests := requests w @ [req]\<rparr>
      in case net req of
           Responded status body \<Rightarrow>
             if 200 \<le> status \<and> status < 300 then (Normal (status, body), w')
             else (Thrown (AxiosError (''Request failed with status code '' @ nat_digits status)
                             True (Some (status, body))), w')
         | NoResponse m \<Rightarrow> (Thrown (AxiosError m True None), w')
         | NotSent m \<Rightarrow> (Thrown (AxiosError m False None), w'))"

text \<open>\<open>handleError\<close> always throws; the model returns the error it throws.\<close>

definition handleError :: "js_error \<Rightarrow> js_error" where
  "handleError error =
     (case error_response error of
        Some (status, body) \<Rightarrow>
          (let message = js_or (opt_chain body ''detail'')
                           (js_or (opt_chain body ''error'') (JSON_stringify body))
           in JsError (''TaxJar API Error ('' @ nat_digits status @ ''): ''
                         @ to_string message))
      | None \<Rightarrow>
          if error_request error
          then JsError (''Network error: No response received from TaxJar API. ''
                          @ ''Check your internet connection.'')
          else JsError (''Request error: '' @ error_message error))"

text \<open>The body every function of api.js shares: \<open>createClient()\<close> outside the \<open>try\<close>, then
  \<open>try { const response = await \<dots>; return response.data.f } catch (error) {
  handleError(error) }\<close>. Reading \<open>f\<close> from a body that is \<open>null\<close> throws inside the \<open>try\<close>
  and is handled like any other error.\<close>

definition try_return ::
  "string \<Rightarrow> (nat \<times> jsval) completion \<times> io \<Rightarrow> jsval completion \<times> io" where
  "try_return f r =
     (case r of
        (Normal (status, body), w) \<Rightarrow>
          (case read_prop body f of
             Inr v \<Rightarrow> (Normal v, w)
           | Inl e \<Rightarrow> (Thrown (handleError e), w))
      | (Thrown e, w) \<Rightarrow> (Thrown (handleError e), w)
      | (Exited n, w) \<Rightarrow> (Exited n, w))"

definition api_call ::
  "config \<Rightarrow> network \<Rightarrow> string \<Rightarrow> string \<Rightarrow> jsval option \<Rightarrow> jsval option \<Rightarrow> string \<Rightarrow> io
     \<Rightarrow> jsval completion \<times> io" where
  "api_call c net method u ps d f w =
     (case createClient c w of
        (Normal client, w') \<Rightarrow> try_return f (axios_request client method u ps d net w')
      | (Thrown e, w') \<Rightarrow> (Thrown e, w')
      | (Exited n, w') \<Rightarrow> (Exited n, w'))"

definition calculateTax :: "config \<Rightarrow> network \<Rightarrow> jsval \<Rightarrow> io \<Rightarrow> jsval completion \<times> io" where
  "calculateTax c net params = api_call c net ''post'' ''/taxes'' None (Some params) ''tax''"

definition getRates ::
  "config \<Rightarrow> network \<Rightarrow> jsval \<Rightarrow> jsval \<Rightarrow> io \<Rightarrow> jsval completion \<times> io" where
  "getRates c net zip_code params =
     api_call c net ''get'' (''/rates/'' @ encodeURIComponent (to_string zip_code))
       (Some params) None ''rate''"

definition getNexusRegions :: "config \<Rightarrow> network \<Rightarrow> io \<Rightarrow> jsval completion \<times> io" where
  "getNexusRegions c net = api_call c net ''get'' ''/nexus/regions'' None None ''regions''"

definition getCategories :: "config \<Rightarrow> network \<Rightarrow> io \<Rightarrow> jsval completion \<times> io" where
  "getCategories c net = api_call c net ''get'' ''/categories'' None None ''categories''"

definition listOrders :: "config \<Rightarrow> network \<Rightarrow> jsval \<Rightarrow> io \<Rightarrow> jsval completion \<times> io" where
  "listOrders c net params =
     api_call c net ''get'' ''/transactions/orders'' (Some params) None ''orders''"

definition getOrder :: "config \<Rightarrow> network \<Rightarrow> jsval \<Rightarrow> io \<Rightarrow> jsval completion \<times> io" where
  "getOrder c net transactionId =
     api_call c net ''get''
       (''/transactions/orders/'' @ encodeURIComponent (to_string transactionId))
       None None ''order''"

definition createOrder :: "config \<Rightarrow> network \<Rightarrow> jsval \<Rightarrow> io \<Rightarrow> jsval completion \<times> io" where
  "createOrder c net params =
     api_call c net ''post'' ''/transactions/orders'' None (Some params) ''order''"

definition updateOrder ::
  "config \<Rightarrow> network \<Rightarrow> jsval \<Rightarrow> jsval \<Rightarrow> io \<Rightarrow> jsval completion \<times> io" where
  "updateOrder c net transactionId params =
     api_call c net ''put''
       (''/transactions/orders/'' @ encodeURIComponent (to_string transactionId))
       None (Some params) ''order''"

definition deleteOrder :: "config \<Rightarrow> network \<Rightarrow> jsval \<Rightarrow> io \<Rightarrow> jsval completion \<times> io" where
  "deleteOrder c net transactionId =
     api_call c net ''delete''
       (''/transactions/orders/'' @ encodeURIComponent (to_string transactionId))
       None None ''order''"

definition listRefunds :: "config \<Rightarrow> network \<Rightarrow> jsval \<Rightarrow> io \<Rightarrow> jsval completion \<times> io" where
  "listRefunds c net params =
     api_call c net ''get'' ''/transactions/refunds'' (Some params) None ''refunds''"

definition getRefund :: "config \<Rightarrow> network \<Rightarrow> jsval \<Rightarrow> io \<Rightarrow> jsval completion \<times> io" where
  "getRefund c net transactionId =
     api_call c net ''get''
       (''/transactions/refunds/'' @ encodeURIComponent (to_string transactionId))
       None None ''refund''"

definition createRefund :: "config \<Rightarrow> network \<Rightarrow> jsval \<Rightarrow> io \<Rightarrow> jsval completion \<times> io" where
  "createRefund c net params =
     api_call c net ''post'' ''/transactions/refunds'' None (Some params) ''refund''"

definition validateAddress ::
  "config \<Rightarrow> network \<Rightarrow> jsval \<Rightarrow> io \<Rightarrow> jsval completion \<times> io" where
  "validateAddress c net params =
     api_call c net ''post'' ''/addresses/validate'' None (Some params) ''addresses''"

definition validateVat :: "config \<Rightarrow> network \<Rightarrow> jsval \<Rightarrow> io \<Rightarrow> jsval completion \<times> io" where
  "validateVat c net vat =
     api_call c net ''get'' ''/validation'' (Some (Obj [(''vat'', vat)])) None ''validation''"

definition getSummaryRates :: "config \<Rightarrow> network \<Rightarrow> io \<Rightarrow> jsval completion \<times> io" where
  "getSummaryRates c net =
     api_call c net ''get'' ''/summary_rates'' None None ''summary_rates''"

text \<open>The request that a client made by \<open>createClient\<close> issues when the credential in
  force is \<open>key\<close>.\<close>

definition request_of ::
  "config \<Rightarrow> string \<Rightarrow> string \<Rightarrow> string \<Rightarrow> jsval option \<Rightarrow> jsval option \<Rightarrow> http_request" where
  "request_of c key method u ps d =
     \<lparr>req_baseURL = getBaseUrl c, req_authorization = ''Bearer '' @ key,
      req_content_type = ''application/json'', req_timeout = 30000,
      req_method = method, req_url = u, req_params = ps, req_data = d\<rparr>"


section \<open>index.js: printing\<close>

text \<open>
  chalk only colours its argument (after \<open>ToString\<close>); colours carry no meaning here and
  the model prints the plain text, as chalk itself does when colour is off. The rule
  \<open>U+2500\<close> of the separators and the check mark \<open>U+2713\<close> are kept as their UTF-8 bytes.
\<close>

definition to_number :: "engine \<Rightarrow> jsval \<Rightarrow> jsnum" where
  "to_number eng v =
     (case v of
        Undefined \<Rightarrow> NaN
      | Null \<Rightarrow> Finite 0 0
      | Bool b \<Rightarrow> Finite (if b then 1 else 0) 0
      | Num n \<Rightarrow> n
      | Str s \<Rightarrow> string_to_number eng s
      | Arr xs \<Rightarrow> string_to_number eng (to_string (Arr xs))
      | Obj kvs \<Rightarrow> NaN)"

definition greater_than_zero :: "jsnum \<Rightarrow> bool" where
  "greater_than_zero n =
     (case n of NaN \<Rightarrow> False | Infinity neg \<Rightarrow> \<not> neg | Finite m d \<Rightarrow> 0 < m)"

definition hbar :: "nat \<Rightarrow> string" where
  "hbar n = concat (replicate n [CHR 0xE2, CHR 0x94, CHR 0x80])"

definition check_mark :: string where
  "check_mark = [CHR 0xE2, CHR 0x9C, CHR 0x93]"

definition padEnd :: "string \<Rightarrow> nat \<Rightarrow> string" where
  "padEnd s n = s @ replicate (n - length s) CHR '' ''"

definition yes_no :: "jsval \<Rightarrow> string" where
  "yes_no v = (if truthy v then ''Yes'' else ''No'')"

text \<open>A run of \<open>console.log\<close> statements. The argument of each is evaluated when its turn
  comes and may throw (\<open>Inl\<close>); the lines before it are then already written.\<close>

fun log_lines :: "(js_error + string) list \<Rightarrow> io \<Rightarrow> unit completion \<times> io" where
  "log_lines [] w = (Normal (), w)"
| "log_lines (Inr s # ls) w = log_lines ls (console_log s w)"
| "log_lines (Inl e # ls) w = (Thrown e, w)"

definition line :: "string \<Rightarrow> (js_error + string) list" where
  "line s = [Inr s]"

text \<open>\<open>console.log(f(obj.k))\<close>, and \<open>if (obj.k) { \<dots> }\<close>.\<close>

definition line_of :: "jsval \<Rightarrow> string \<Rightarrow> (jsval \<Rightarrow> string) \<Rightarrow> (js_error + string) list" where
  "line_of obj k f = [case read_prop obj k of Inl e \<Rightarrow> Inl e | Inr v \<Rightarrow> Inr (f v)]"

definition block_if ::
  "jsval \<Rightarrow> string \<Rightarrow> (jsval \<Rightarrow> (js_error + string) list) \<Rightarrow> (js_error + string) list" where
  "block_if obj k body =
     (case read_prop obj k of
        Inl e \<Rightarrow> [Inl e]
      | Inr v \<Rightarrow> if truthy v then body v else [])"

definition line_if :: "jsval \<Rightarrow> string \<Rightarrow> (jsval \<Rightarrow> string) \<Rightarrow> (js_error + string) list" where
  "line_if obj k f = block_if obj k (\<lambda>v. [Inr (f v)])"

text \<open>Sequencing (\<open>await\<close>, or one statement after another) and the \<open>try\<close>/\<open>catch\<close> that
  every command wraps around its work: \<open>spinner.fail(text)\<close>,
  \<open>console.error(error.message)\<close>, \<open>process.exit(1)\<close>.\<close>

definition then_do ::
  "'a completion \<times> io \<Rightarrow> ('a \<Rightarrow> io \<Rightarrow> 'b completion \<times> io) \<Rightarrow> 'b completion \<times> io" where
  "then_do r f =
     (case r of
        (Normal v, w) \<Rightarrow> f v w
      | (Thrown e, w) \<Rightarrow> (Thrown e, w)
      | (Exited n, w) \<Rightarrow> (Exited n, w))"

definition try_catch ::
  "string \<Rightarrow> (io \<Rightarrow> unit completion \<times> io) \<Rightarrow> io \<Rightarrow> unit completion \<times> io" where
  "try_catch failText body w =
     (case body w of
        (Thrown error, w') \<Rightarrow>
          (Exited 1, console_error (error_message error) (spin (SpinFail failText) w'))
      | (Normal u, w') \<Rightarrow> (Normal u, w')
      | (Exited n, w') \<Rightarrow> (Exited n, w'))"

definition printJson :: "jsval \<Rightarrow> io \<Rightarrow> unit completion \<times> io" where
  "printJson d w =
     (Normal (),
      console_log (case stringify ''  '' [] d of None \<Rightarrow> ''undefined'' | Some t \<Rightarrow> t) w)"

definition printSuccess :: "string \<Rightarrow> io \<Rightarrow> io" where
  "printSuccess m w = console_log (check_mark @ '' '' @ m) w"

text \<open>\<open>printTable(data, columns)\<close>; a column is its key and its label. The cell of a row
  is \<open>String(row[key] ?? '')\<close>. The first loop (the widths) already reads every cell of
  every row, so a row that is \<open>null\<close> throws before anything is printed, as does data
  that has no \<open>forEach\<close>.\<close>

definition cell :: "jsval \<Rightarrow> string \<Rightarrow> string" where
  "cell row key = to_string (coalesce (field row key) (Str []))"

definition colWidth :: "jsval list \<Rightarrow> string \<times> string \<Rightarrow> nat" where
  "colWidth rows col =
     foldl (\<lambda>width row. max width (length (cell row (fst col)))) (length (snd col)) rows"

definition table_lines :: "jsval list \<Rightarrow> (string \<times> string) list \<Rightarrow> string list" where
  "table_lines rows columns =
     join ''  '' (map (\<lambda>col. padEnd (snd col) (colWidth rows col)) columns)
     # join ''  '' (map (\<lambda>col. replicate (colWidth rows col) CHR ''-'') columns)
     # map (\<lambda>row. join ''  ''
                     (map (\<lambda>col. padEnd (cell row (fst col)) (colWidth rows col)) columns))
           rows"

definition printTable :: "jsval \<Rightarrow> (string \<times> string) list \<Rightarrow> io \<Rightarrow> unit completion \<times> io" where
  "printTable d columns w =
     (if \<not> truthy d \<or> field d ''length'' = Num (Finite 0 0)
      then (Normal (), console_log ''No results found.'' w)
      else case d of
             Arr rows \<Rightarrow>
               (case (columns, find nullish rows) of
                  (col # cols, Some row) \<Rightarrow>
                    (case read_prop row (fst col) of
                       Inl e \<Rightarrow> (Thrown e, w)
                     | Inr v \<Rightarrow> (Normal (), w))
                | _ \<Rightarrow> log_lines (map Inr (table_lines rows columns)) w)
           | _ \<Rightarrow>
               (if columns = []
                then (Thrown (JsTypeError ''data.forEach is not a function''),
                      console_log [] (console_log [] w))
                else (Thrown (JsTypeError ''data.forEach is not a function''), w)))"

section \<open>index.js: the commands\<close>

text \<open>The \<open>options\<close> object that commander hands to an action: a property for every flag
  that was given a value or has a default, \<open>json: true\<close> when \<open>--json\<close> was given, and
  nothing (\<open>undefined\<close>) for the rest.\<close>

type_synonym options = "(string \<times> jsval) list"

definition opt :: "options \<Rightarrow> string \<Rightarrow> jsval" where
  "opt options k = field (Obj options) k"

text \<open>\<open>if (options.x) params.y = options.x\<close>.\<close>

definition optional_param :: "options \<Rightarrow> string \<Rightarrow> string \<Rightarrow> (string \<times> jsval) list" where
  "optional_param options x y = (if truthy (opt options x) then [(y, opt options x)] else [])"

definition number_param :: "engine \<Rightarrow> options \<Rightarrow> string \<Rightarrow> jsval" where
  "number_param eng options x = Num (parseFloat eng (to_string (opt options x)))"

definition optional_number_param ::
  "engine \<Rightarrow> options \<Rightarrow> string \<Rightarrow> string \<Rightarrow> (string \<times> jsval) list" where
  "optional_number_param eng options x y =
     (if truthy (opt options x) then [(y, number_param eng options x)] else [])"

subsection \<open>config\<close>

definition config_set :: "options \<Rightarrow> config \<Rightarrow> io \<Rightarrow> (unit completion \<times> io) \<times> config" where
  "config_set options c w =
     ((Normal (),
       console_log ''You can also set TAXJAR_API_KEY as an environment variable.''
         (printSuccess ''API key saved successfully.'' w)),
      setApiKey (to_string (opt options ''apiKey'')) c)"

definition config_show :: "config \<Rightarrow> io \<Rightarrow> unit completion \<times> io" where
  "config_show c w =
     (let cfg = showConfig c
      in log_lines
           (line ''TaxJar CLI Configuration''
            @ line (hbar 25)
            @ line (''API Key:     '' @ apiKey cfg)
            @ line (''Base URL:    '' @ baseUrl cfg)
            @ line (''Config file: '' @ configPath cfg)) w)"

subsection \<open>tax\<close>

definition tax_calculate_params :: "engine \<Rightarrow> options \<Rightarrow> jsval" where
  "tax_calculate_params eng options =
     Obj ([(''from_country'', opt options ''fromCountry''),
           (''from_zip'', opt options ''fromZip''),
           (''from_state'', opt options ''fromState''),
           (''to_country'', opt options ''toCountry''),
           (''to_zip'', opt options ''toZip''),
           (''to_state'', opt options ''toState''),
           (''amount'', number_param eng options ''amount''),
           (''shipping'', number_param eng options ''shipping'')]
          @ optional_param options ''fromCity'' ''from_city''
          @ optional_param options ''fromStreet'' ''from_street''
          @ optional_param options ''toCity'' ''to_city''
          @ optional_param options ''toStreet'' ''to_street'')"

definition tax_calculate_lines :: "engine \<Rightarrow> options \<Rightarrow> jsval \<Rightarrow> (js_error + string) list" where
  "tax_calculate_lines eng options result =
     line []
     @ line ''Tax Calculation Result''
     @ line (hbar 22)
     @ line (''Order Amount:       '' @ ''$'' @ to_string (opt options ''amount''))
     @ line_of result ''taxable_amount'' (\<lambda>v. ''Taxable Amount:     '' @ ''$'' @ to_string v)
     @ line (''Shipping:           '' @ ''$'' @ to_string (opt options ''shipping''))
     @ line_of result ''freight_taxable'' (\<lambda>v. ''Freight Taxable:    '' @ yes_no v)
     @ line_of result ''rate'' (\<lambda>v. ''Tax Rate:           '' @ percent4 eng v @ ''%'')
     @ line_of result ''amount_to_collect'' (\<lambda>v. ''Tax to Collect:     '' @ ''$'' @ to_string v)
     @ line_of result ''has_nexus'' (\<lambda>v. ''Has Nexus:          '' @ yes_no v)
     @ block_if result ''breakdown'' (\<lambda>b.
         line []
         @ line ''Breakdown''
         @ line (hbar 9)
         @ line_if b ''state_tax_collectable''
             (\<lambda>v. ''State Tax:          '' @ ''$'' @ to_string v)
         @ line_if b ''county_tax_collectable''
             (\<lambda>v. ''County Tax:         '' @ ''$'' @ to_string v)
         @ line_if b ''city_tax_collectable''
             (\<lambda>v. ''City Tax:           '' @ ''$'' @ to_string v)
         @ line_if b ''special_district_tax_collectable''
             (\<lambda>v. ''Special District:   '' @ ''$'' @ to_string v))"

definition tax_calculate ::
  "engine \<Rightarrow> config \<Rightarrow> network \<Rightarrow> options \<Rightarrow> io \<Rightarrow> unit completion \<times> io" where
  "tax_calculate eng c net options w =
     try_catch ''Tax calculation failed''
       (\<lambda>w. then_do (calculateTax c net (tax_calculate_params eng options) w)
          (\<lambda>result w.
             if truthy (opt options ''json'')
             then printJson result (spin (SpinSucceed ''Tax calculated'') w)
             else log_lines (tax_calculate_lines eng options result)
                    (spin (SpinSucceed ''Tax calculated'') w)))
       (spin (SpinStart ''Calculating tax...'') w)"

subsection \<open>rates\<close>

definition rates_get_params :: "options \<Rightarrow> jsval" where
  "rates_get_params options =
     Obj ([(''country'', opt options ''country'')]
          @ optional_param options ''city'' ''city''
          @ optional_param options ''street'' ''street''
          @ optional_param options ''state'' ''state'')"

definition rate_percent :: "engine \<Rightarrow> jsval \<Rightarrow> string" where
  "rate_percent eng v = percent4 eng (Num (parseFloat eng (to_string v))) @ ''%''"

definition rates_get_lines :: "engine \<Rightarrow> options \<Rightarrow> jsval \<Rightarrow> (js_error + string) list" where
  "rates_get_lines eng options rate =
     line []
     @ line (''Tax Rates for '' @ to_string (opt options ''zip'')
             @ '' ('' @ to_string (opt options ''country'') @ '')'')
     @ line (hbar 34)
     @ line_if rate ''city'' (\<lambda>v. ''City:               '' @ to_string v)
     @ line_if rate ''state'' (\<lambda>v. ''State:              '' @ to_string v)
     @ line_if rate ''county'' (\<lambda>v. ''County:             '' @ to_string v)
     @ line []
     @ line_if rate ''state_rate'' (\<lambda>v. ''State Rate:         '' @ rate_percent eng v)
     @ line_if rate ''county_rate'' (\<lambda>v. ''County Rate:        '' @ rate_percent eng v)
     @ line_if rate ''city_rate'' (\<lambda>v. ''City Rate:          '' @ rate_percent eng v)
     @ line_if rate ''combined_district_rate''
         (\<lambda>v. ''District Rate:      '' @ rate_percent eng v)
     @ line_of rate ''combined_rate'' (\<lambda>v. ''Combined Rate:      '' @ rate_percent eng v)
     @ (case read_prop rate ''freight_taxable'' of
          Inl e \<Rightarrow> [Inl e]
        | Inr v \<Rightarrow> if v \<noteq> Undefined then line (''Freight Taxable:    '' @ yes_no v) else [])"

definition rates_get ::
  "engine \<Rightarrow> config \<Rightarrow> network \<Rightarrow> options \<Rightarrow> io \<Rightarrow> unit completion \<times> io" where
  "rates_get eng c net options w =
     try_catch ''Failed to fetch rates''
       (\<lambda>w. then_do (getRates c net (opt options ''zip'') (rates_get_params options) w)
          (\<lambda>rate w.
             if truthy (opt options ''json'')
             then printJson rate (spin (SpinSucceed ''Rates retrieved'') w)
             else log_lines (rates_get_lines eng options rate)
                    (spin (SpinSucceed ''Rates retrieved'') w)))
       (spin (SpinStart (''Fetching rates for '' @ to_string (opt options ''zip'') @ ''...'')) w)"

text \<open>The commands that print a list: the spinner's success text reads \<open>list.length\<close>
  (which throws for \<open>null\<close> and \<open>undefined\<close>), then the list is printed as JSON or handed
  to \<open>show\<close>.\<close>

definition list_command ::
  "string \<Rightarrow> string \<Rightarrow> (string \<Rightarrow> string) \<Rightarrow> (jsval \<Rightarrow> io \<Rightarrow> unit completion \<times> io)
     \<Rightarrow> (io \<Rightarrow> jsval completion \<times> io) \<Rightarrow> options \<Rightarrow> io \<Rightarrow> unit completion \<times> io" where
  "list_command startText failText succeedText show fetch options w =
     try_catch failText
       (\<lambda>w. then_do (fetch w)
          (\<lambda>items w.
             case read_prop items ''length'' of
               Inl e \<Rightarrow> (Thrown e, w)
             | Inr n \<Rightarrow>
                 if truthy (opt options ''json'')
                 then printJson items (spin (SpinSucceed (succeedText (to_string n))) w)
                 else show items (spin (SpinSucceed (succeedText (to_string n))) w)))
       (spin (SpinStart startText) w)"

definition rates_summary :: "config \<Rightarrow> network \<Rightarrow> options \<Rightarrow> io \<Rightarrow> unit completion \<times> io" where
  "rates_summary c net =
     list_command ''Fetching summary rates...'' ''Failed to fetch summary rates''
       (\<lambda>n. ''Retrieved '' @ n @ '' region summaries'')
       (\<lambda>rates. printTable rates
          [(''country_code'', ''Country''),
           (''country'', ''Country Name''),
           (''region_code'', ''Region''),
           (''region'', ''Region Name''),
           (''minimum_rate.rate'', ''Min Rate''),
           (''average_rate.rate'', ''Avg Rate'')])
       (getSummaryRates c net)"

subsection \<open>nexus, categories\<close>

definition nexus_list :: "config \<Rightarrow> network \<Rightarrow> options \<Rightarrow> io \<Rightarrow> unit completion \<times> io" where
  "nexus_list c net =
     list_command ''Fetching nexus regions...'' ''Failed to fetch nexus regions''
       (\<lambda>n. ''Found '' @ n @ '' nexus region(s)'')
       (\<lambda>regions. printTable regions
          [(''country_code'', ''Country''),
           (''country'', ''Country Name''),
           (''region_code'', ''State/Region''),
           (''region'', ''Region Name'')])
       (getNexusRegions c net)"

definition categories_list :: "config \<Rightarrow> network \<Rightarrow> options \<Rightarrow> io \<Rightarrow> unit completion \<times> io" where
  "categories_list c net =
     list_command ''Fetching categories...'' ''Failed to fetch categories''
       (\<lambda>n. ''Found '' @ n @ '' categories'')
       (\<lambda>categories. printTable categories
          [(''product_tax_code'', ''Tax Code''),
           (''name'', ''Name''),
           (''description'', ''Description'')])
       (getCategories c net)"

subsection \<open>orders\<close>

text \<open>\<open>ids.map(id => ({ transaction_id: id }))\<close>, then the table; a value without \<open>map\<close>
  throws.\<close>

definition print_ids :: "string \<Rightarrow> jsval \<Rightarrow> io \<Rightarrow> unit completion \<times> io" where
  "print_ids name ids w =
     (case ids of
        Arr xs \<Rightarrow>
          printTable (Arr (map (\<lambda>id. Obj [(''transaction_id'', id)]) xs))
            [(''transaction_id'', ''Transaction ID'')] w
      | _ \<Rightarrow> (Thrown (JsTypeError (name @ ''.map is not a function'')), w))"

definition orders_list_params :: "options \<Rightarrow> jsval" where
  "orders_list_params options =
     Obj (optional_param options ''fromDate'' ''from_transaction_date''
          @ optional_param options ''toDate'' ''to_transaction_date''
          @ optional_param options ''status'' ''status'')"

definition orders_list :: "config \<Rightarrow> network \<Rightarrow> options \<Rightarrow> io \<Rightarrow> unit completion \<times> io" where
  "orders_list c net options =
     list_command ''Fetching orders...'' ''Failed to fetch orders''
       (\<lambda>n. ''Found '' @ n @ '' order(s)'')
       (\<lambda>orders w.
          if field orders ''length'' = Num (Finite 0 0)
          then (Normal (), console_log ''No orders found for the given criteria.'' w)
          else then_do (print_ids ''orders'' orders w)
                 (\<lambda>u w. (Normal (),
                    console_log ([CHR 0x0A] @ ''Use '' @ [CHR 0x60] @ ''taxjar orders get <transaction-id>'' @ [CHR 0x60] @ '' ''
                                 @ ''to see order details.'') w)))
       (listOrders c net (orders_list_params options)) options"

definition address_text :: "jsval \<Rightarrow> string \<Rightarrow> string \<Rightarrow> string \<Rightarrow> string \<Rightarrow> string" where
  "address_text order city state zip_code country =
     trim (to_string (js_or (field order city) (Str []))
           @ '', '' @ to_string (js_or (field order state) (Str []))
           @ '' '' @ to_string (js_or (field order zip_code) (Str []))
           @ '' '' @ to_string (field order country))"

definition orders_get_lines :: "jsval \<Rightarrow> (js_error + string) list" where
  "orders_get_lines order =
     line []
     @ line_of order ''transaction_id'' (\<lambda>v. ''Order: '' @ to_string v)
     @ line (hbar 34)
     @ line_of order ''transaction_date'' (\<lambda>v. ''Transaction Date:   '' @ to_string v)
     @ line_of order ''amount'' (\<lambda>v. ''Amount:             '' @ ''$'' @ to_string v)
     @ line_of order ''shipping'' (\<lambda>v. ''Shipping:           '' @ ''$'' @ to_string v)
     @ line_of order ''sales_tax'' (\<lambda>v. ''Sales Tax:          '' @ ''$'' @ to_string v)
     @ line_if order ''to_country''
         (\<lambda>v. ''Destination:        ''
               @ address_text order ''to_city'' ''to_state'' ''to_zip'' ''to_country'')
     @ line_if order ''from_country''
         (\<lambda>v. ''Origin:             ''
               @ address_text order ''from_city'' ''from_state'' ''from_zip'' ''from_country'')"

definition has_line_items :: "engine \<Rightarrow> jsval \<Rightarrow> bool" where
  "has_line_items eng order =
     (truthy (field order ''line_items'')
      \<and> greater_than_zero (to_number eng (field (field order ''line_items'') ''length'')))"

definition orders_get ::
  "engine \<Rightarrow> config \<Rightarrow> network \<Rightarrow> jsval \<Rightarrow> options \<Rightarrow> io \<Rightarrow> unit completion \<times> io" where
  "orders_get eng c net transactionId options w =
     try_catch ''Failed to fetch order''
       (\<lambda>w. then_do (getOrder c net transactionId w)
          (\<lambda>order w.
             if truthy (opt options ''json'')
             then printJson order (spin (SpinSucceed ''Order retrieved'') w)
             else then_do (log_lines (orders_get_lines order)
                             (spin (SpinSucceed ''Order retrieved'') w))
                    (\<lambda>u w.
                       if has_line_items eng order
                       then then_do
                              (log_lines (line [] @ line ''Line Items'' @ line (hbar 10)) w)
                              (\<lambda>u. printTable (field order ''line_items'')
                                 [(''id'', ''ID''),
                                  (''description'', ''Description''),
                                  (''quantity'', ''Qty''),
                                  (''unit_price'', ''Unit Price''),
                                  (''sales_tax'', ''Sales Tax'')])
                       else (Normal (), w))))
       (spin (SpinStart (''Fetching order '' @ to_string transactionId @ ''...'')) w)"

definition transaction_lines :: "string \<Rightarrow> jsval \<Rightarrow> (js_error + string) list" where
  "transaction_lines amountLabel t =
     line_of t ''transaction_id'' (\<lambda>v. ''Transaction ID:  '' @ to_string v)
     @ line_of t ''amount'' (\<lambda>v. amountLabel @ ''$'' @ to_string v)
     @ line_of t ''sales_tax'' (\<lambda>v. ''Sales Tax:       '' @ ''$'' @ to_string v)"

definition orders_create_params :: "engine \<Rightarrow> options \<Rightarrow> jsval" where
  "orders_create_params eng options =
     Obj ([(''transaction_id'', opt options ''transactionId''),
           (''transaction_date'', opt options ''transactionDate''),
           (''to_country'', opt options ''toCountry''),
           (''to_zip'', opt options ''toZip''),
           (''to_state'', opt options ''toState''),
           (''amount'', number_param eng options ''amount''),
           (''shipping'', number_param eng options ''shipping''),
           (''sales_tax'', number_param eng options ''salesTax'')]
          @ optional_param options ''fromCountry'' ''from_country''
          @ optional_param options ''fromZip'' ''from_zip''
          @ optional_param options ''fromState'' ''from_state''
          @ optional_param options ''toCity'' ''to_city''
          @ optional_param options ''fromCity'' ''from_city'')"

definition orders_create :: "engine \<Rightarrow> config \<Rightarrow> network \<Rightarrow> options \<Rightarrow> io \<Rightarrow> unit completion \<times> io" where
  "orders_create eng c net options w =
     try_catch ''Failed to create order''
       (\<lambda>w. then_do (createOrder c net (orders_create_params eng options) w)
          (\<lambda>order w.
             if truthy (opt options ''json'')
             then printJson order (spin (SpinSucceed ''Order created successfully'') w)
             else log_lines (transaction_lines ''Amount:          '' order)
                    (spin (SpinSucceed ''Order created successfully'') w)))
       (spin (SpinStart ''Creating order...'') w)"

definition orders_update_params :: "engine \<Rightarrow> jsval \<Rightarrow> options \<Rightarrow> jsval" where
  "orders_update_params eng transactionId options =
     Obj ([(''transaction_id'', transactionId)]
          @ optional_number_param eng options ''amount'' ''amount''
          @ optional_number_param eng options ''shipping'' ''shipping''
          @ optional_number_param eng options ''salesTax'' ''sales_tax''
          @ optional_param options ''transactionDate'' ''transaction_date'')"

definition orders_update ::
  "engine \<Rightarrow> config \<Rightarrow> network \<Rightarrow> jsval \<Rightarrow> options \<Rightarrow> io \<Rightarrow> unit completion \<times> io" where
  "orders_update eng c net transactionId options w =
     try_catch ''Failed to update order''
       (\<lambda>w. then_do
          (updateOrder c net transactionId (orders_update_params eng transactionId options) w)
          (\<lambda>order w.
             if truthy (opt options ''json'')
             then printJson order (spin (SpinSucceed ''Order updated successfully'') w)
             else log_lines (transaction_lines ''Amount:          '' order)
                    (spin (SpinSucceed ''Order updated successfully'') w)))
       (spin (SpinStart (''Updating order '' @ to_string transactionId @ ''...'')) w)"

definition orders_delete ::
  "config \<Rightarrow> network \<Rightarrow> jsval \<Rightarrow> options \<Rightarrow> io \<Rightarrow> unit completion \<times> io" where
  "orders_delete c net transactionId options w =
     try_catch ''Failed to delete order''
       (\<lambda>w. then_do (deleteOrder c net transactionId w)
          (\<lambda>order w.
             if truthy (opt options ''json'')
             then printJson order (spin (SpinSucceed ''Order deleted successfully'') w)
             else log_lines (line (''Deleted transaction: '' @ to_string transactionId))
                    (spin (SpinSucceed ''Order deleted successfully'') w)))
       (spin (SpinStart (''Deleting order '' @ to_string transactionId @ ''...'')) w)"

subsection \<open>refunds\<close>

definition refunds_list_params :: "options \<Rightarrow> jsval" where
  "refunds_list_params options =
     Obj (optional_param options ''fromDate'' ''from_transaction_date''
          @ optional_param options ''toDate'' ''to_transaction_date'')"

definition refunds_list :: "config \<Rightarrow> network \<Rightarrow> options \<Rightarrow> io \<Rightarrow> unit completion \<times> io" where
  "refunds_list c net options =
     list_command ''Fetching refunds...'' ''Failed to fetch refunds''
       (\<lambda>n. ''Found '' @ n @ '' refund(s)'')
       (\<lambda>refunds w.
          if field refunds ''length'' = Num (Finite 0 0)
          then (Normal (), console_log ''No refunds found for the given criteria.'' w)
          else print_ids ''refunds'' refunds w)
       (listRefunds c net (refunds_list_params options)) options"

definition refunds_get_lines :: "jsval \<Rightarrow> (js_error + string) list" where
  "refunds_get_lines refund =
     line []
     @ line_of refund ''transaction_id'' (\<lambda>v. ''Refund: '' @ to_string v)
     @ line (hbar 34)
     @ line_of refund ''transaction_date'' (\<lambda>v. ''Transaction Date:   '' @ to_string v)
     @ line_of refund ''amount'' (\<lambda>v. ''Refund Amount:      '' @ ''$'' @ to_string v)
     @ line_of refund ''sales_tax'' (\<lambda>v. ''Sales Tax Refund:   '' @ ''$'' @ to_string v)"

definition refunds_get ::
  "config \<Rightarrow> network \<Rightarrow> jsval \<Rightarrow> options \<Rightarrow> io \<Rightarrow> unit completion \<times> io" where
  "refunds_get c net transactionId options w =
     try_catch ''Failed to fetch refund''
       (\<lambda>w. then_do (getRefund c net transactionId w)
          (\<lambda>refund w.
             if truthy (opt options ''json'')
             then printJson refund (spin (SpinSucceed ''Refund retrieved'') w)
             else log_lines (refunds_get_lines refund)
                    (spin (SpinSucceed ''Refund retrieved'') w)))
       (spin (SpinStart (''Fetching refund '' @ to_string transactionId @ ''...'')) w)"

definition refunds_create_params :: "engine \<Rightarrow> options \<Rightarrow> jsval" where
  "refunds_create_params eng options =
     Obj [(''transaction_id'', opt options ''transactionId''),
          (''transaction_date'', opt options ''transactionDate''),
          (''transaction_reference_id'', opt options ''transactionReferenceId''),
          (''to_country'', opt options ''toCountry''),
          (''to_zip'', opt options ''toZip''),
          (''to_state'', opt options ''toState''),
          (''amount'', number_param eng options ''amount''),
          (''shipping'', number_param eng options ''shipping''),
          (''sales_tax'', number_param eng options ''salesTax'')]"

definition refunds_create :: "engine \<Rightarrow> config \<Rightarrow> network \<Rightarrow> options \<Rightarrow> io \<Rightarrow> unit completion \<times> io" where
  "refunds_create eng c net options w =
     try_catch ''Failed to create refund''
       (\<lambda>w. then_do (createRefund c net (refunds_create_params eng options) w)
          (\<lambda>refund w.
             if truthy (opt options ''json'')
             then printJson refund (spin (SpinSucceed ''Refund created successfully'') w)
             else log_lines (transaction_lines ''Refund Amount:   '' refund)
                    (spin (SpinSucceed ''Refund created successfully'') w)))
       (spin (SpinStart ''Creating refund...'') w)"

subsection \<open>validate\<close>

definition validate_address_params :: "options \<Rightarrow> jsval" where
  "validate_address_params options =
     Obj ([(''country'', opt options ''country'')]
          @ optional_param options ''state'' ''state''
          @ optional_param options ''zip'' ''zip''
          @ optional_param options ''city'' ''city''
          @ optional_param options ''street'' ''street'')"

definition match_lines :: "nat \<Rightarrow> jsval \<Rightarrow> (js_error + string) list" where
  "match_lines i addr =
     line []
     @ line (''Match '' @ nat_digits (i + 1) @ '':'')
     @ line_if addr ''street'' (\<lambda>v. ''Street:  '' @ to_string v)
     @ line_if addr ''city'' (\<lambda>v. ''City:    '' @ to_string v)
     @ line_if addr ''state'' (\<lambda>v. ''State:   '' @ to_string v)
     @ line_if addr ''zip'' (\<lambda>v. ''ZIP:     '' @ to_string v)
     @ line_if addr ''country'' (\<lambda>v. ''Country: '' @ to_string v)"

definition validate_address ::
  "config \<Rightarrow> network \<Rightarrow> options \<Rightarrow> io \<Rightarrow> unit completion \<times> io" where
  "validate_address c net options =
     list_command ''Validating address...'' ''Address validation failed''
       (\<lambda>n. ''Found '' @ n @ '' address match(es)'')
       (\<lambda>addresses w.
          case addresses of
            Arr xs \<Rightarrow>
              log_lines (concat (map (\<lambda>(i, addr). match_lines i addr)
                                     (zip [0..<length xs] xs))) w
          | _ \<Rightarrow> (Thrown (JsTypeError ''addresses.forEach is not a function''), w))
       (validateAddress c net (validate_address_params options)) options"

definition validate_vat_lines :: "jsval \<Rightarrow> (js_error + string) list" where
  "validate_vat_lines result =
     line []
     @ line ''VAT Validation Result''
     @ line (hbar 21)
     @ line_of result ''vat_number'' (\<lambda>v. ''VAT Number:  '' @ to_string v)
     @ line_of result ''valid'' (\<lambda>v. ''Valid:       '' @ yes_no v)
     @ line_if result ''name'' (\<lambda>v. ''Name:        '' @ to_string v)
     @ line_if result ''country_code'' (\<lambda>v. ''Country:     '' @ to_string v)"

definition validate_vat ::
  "config \<Rightarrow> network \<Rightarrow> jsval \<Rightarrow> options \<Rightarrow> io \<Rightarrow> unit completion \<times> io" where
  "validate_vat c net vatNumber options w =
     try_catch ''VAT validation failed''
       (\<lambda>w. then_do (validateVat c net vatNumber w)
          (\<lambda>result w.
             if truthy (opt options ''json'')
             then printJson result (spin (SpinSucceed ''VAT validation complete'') w)
             else log_lines (validate_vat_lines result)
                    (spin (SpinSucceed ''VAT validation complete'') w)))
       (spin (SpinStart (''Validating VAT: '' @ to_string vatNumber @ ''...'')) w)"

section \<open>index.js: the command tree\<close>

datatype command =
    ConfigSet | ConfigShow
  | TaxCalculate
  | RatesGet | RatesSummary
  | NexusList
  | CategoriesList
  | OrdersList | OrdersGet | OrdersCreate | OrdersUpdate | OrdersDelete
  | RefundsList | RefundsGet | RefundsCreate
  | ValidateAddress | ValidateVat

text \<open>The declarations of a command's valued flags, in the order of the source:
  \<open>.requiredOption(flags, \<dots>)\<close> and \<open>.option(flags, \<dots>, default)\<close>, each with the name of the
  property that commander gives it on \<open>options\<close> (the long flag in camel case).\<close>

datatype option_decl =
    RequiredOption string string
  | Option string string "string option"

fun attribute :: "option_decl \<Rightarrow> string" where
  "attribute (RequiredOption flags a) = a"
| "attribute (Option flags a dflt) = a"

fun mandatory :: "option_decl \<Rightarrow> bool" where
  "mandatory (RequiredOption flags a) = True"
| "mandatory (Option flags a dflt) = False"

fun default_value :: "option_decl \<Rightarrow> string option" where
  "default_value (RequiredOption flags a) = None"
| "default_value (Option flags a dflt) = dflt"

fun option_flags :: "option_decl \<Rightarrow> string" where
  "option_flags (RequiredOption flags a) = flags"
| "option_flags (Option flags a dflt) = flags"

fun option_decls :: "command \<Rightarrow> option_decl list" where
  "option_decls ConfigSet = [RequiredOption ''--api-key <key>'' ''apiKey'']"
| "option_decls ConfigShow = []"
| "option_decls TaxCalculate =
     [RequiredOption ''--from-country <code>'' ''fromCountry'',
      RequiredOption ''--from-zip <zip>'' ''fromZip'',
      RequiredOption ''--from-state <state>'' ''fromState'',
      RequiredOption ''--to-country <code>'' ''toCountry'',
      RequiredOption ''--to-zip <zip>'' ''toZip'',
      RequiredOption ''--to-state <state>'' ''toState'',
      RequiredOption ''--amount <amount>'' ''amount'',
      Option ''--shipping <amount>'' ''shipping'' (Some ''0''),
      Option ''--from-city <city>'' ''fromCity'' None,
      Option ''--from-street <street>'' ''fromStreet'' None,
      Option ''--to-city <city>'' ''toCity'' None,
      Option ''--to-street <street>'' ''toStreet'' None]"
| "option_decls RatesGet =
     [RequiredOption ''--zip <zip>'' ''zip'',
      Option ''--country <code>'' ''country'' (Some ''US''),
      Option ''--city <city>'' ''city'' None,
      Option ''--street <street>'' ''street'' None,
      Option ''--state <state>'' ''state'' None]"
| "option_decls RatesSummary = []"
| "option_decls NexusList = []"
| "option_decls CategoriesList = []"
| "option_decls OrdersList =
     [Option ''--from-date <date>'' ''fromDate'' None,
      Option ''--to-date <date>'' ''toDate'' None,
      Option ''--status <status>'' ''status'' None]"
| "option_decls OrdersGet = []"
| "option_decls OrdersCreate =
     [RequiredOption ''--transaction-id <id>'' ''transactionId'',
      RequiredOption ''--transaction-date <date>'' ''transactionDate'',
      RequiredOption ''--to-country <code>'' ''toCountry'',
      RequiredOption ''--to-zip <zip>'' ''toZip'',
      RequiredOption ''--to-state <state>'' ''toState'',
      RequiredOption ''--amount <amount>'' ''amount'',
      RequiredOption ''--shipping <amount>'' ''shipping'',
      RequiredOption ''--sales-tax <tax>'' ''salesTax'',
      Option ''--from-country <code>'' ''fromCountry'' None,
      Option ''--from-zip <zip>'' ''fromZip'' None,
      Option ''--from-state <state>'' ''fromState'' None,
      Option ''--to-city <city>'' ''toCity'' None,
      Option ''--from-city <city>'' ''fromCity'' None]"
| "option_decls OrdersUpdate =
     [Option ''--amount <amount>'' ''amount'' None,
      Option ''--shipping <amount>'' ''shipping'' None,
      Option ''--sales-tax <tax>'' ''salesTax'' None,
      Option ''--transaction-date <date>'' ''transactionDate'' None]"
| "option_decls OrdersDelete = []"
| "option_decls RefundsList =
     [Option ''--from-date <date>'' ''fromDate'' None,
      Option ''--to-date <date>'' ''toDate'' None]"
| "option_decls RefundsGet = []"
| "option_decls RefundsCreate =
     [RequiredOption ''--transaction-id <id>'' ''transactionId'',
      RequiredOption ''--transaction-date <date>'' ''transactionDate'',
      RequiredOption ''--transaction-reference-id <id>'' ''transactionReferenceId'',
      RequiredOption ''--to-country <code>'' ''toCountry'',
      RequiredOption ''--to-zip <zip>'' ''toZip'',
      RequiredOption ''--to-state <state>'' ''toState'',
      RequiredOption ''--amount <amount>'' ''amount'',
      RequiredOption ''--shipping <amount>'' ''shipping'',
      RequiredOption ''--sales-tax <tax>'' ''salesTax'']"
| "option_decls ValidateAddress =
     [RequiredOption ''--country <code>'' ''country'',
      Option ''--state <state>'' ''state'' None,
      Option ''--zip <zip>'' ''zip'' None,
      Option ''--city <city>'' ''city'' None,
      Option ''--street <street>'' ''street'' None]"
| "option_decls ValidateVat = []"

text \<open>Every command but the two of \<open>config\<close> declares \<open>--json\<close>.\<close>

fun accepts_json :: "command \<Rightarrow> bool" where
  "accepts_json ConfigSet = False"
| "accepts_json ConfigShow = False"
| "accepts_json c = True"

text \<open>The required positional arguments (\<open><transaction-id>\<close>, \<open><vat-number>\<close>).\<close>

fun arguments :: "command \<Rightarrow> string list" where
  "arguments OrdersGet = [''transaction-id'']"
| "arguments OrdersUpdate = [''transaction-id'']"
| "arguments OrdersDelete = [''transaction-id'']"
| "arguments RefundsGet = [''transaction-id'']"
| "arguments ValidateVat = [''vat-number'']"
| "arguments c = []"

text \<open>A command line, after commander has split it: the command, its positional
  arguments, the valued flags that were given (by property name) and whether \<open>--json\<close>
  was given.\<close>

record invocation =
  inv_command :: command
  inv_operands :: "string list"
  inv_supplied :: "(string \<times> string) list"
  inv_json :: bool

definition required_attributes :: "command \<Rightarrow> string list" where
  "required_attributes c = map attribute (filter mandatory (option_decls c))"

definition optional_attributes :: "command \<Rightarrow> string list" where
  "optional_attributes c = map attribute (filter (\<lambda>d. \<not> mandatory d) (option_decls c))"

definition option_entry :: "(string \<times> string) list \<Rightarrow> option_decl \<Rightarrow> (string \<times> jsval) list" where
  "option_entry supplied d =
     (case map_of supplied (attribute d) of
        Some v \<Rightarrow> [(attribute d, Str v)]
      | None \<Rightarrow> (case default_value d of Some v \<Rightarrow> [(attribute d, Str v)] | None \<Rightarrow> []))"

definition build_options :: "option_decl list \<Rightarrow> (string \<times> string) list \<Rightarrow> bool \<Rightarrow> options" where
  "build_options decls supplied js =
     concat (map (option_entry supplied) decls)
     @ (if js then [(''json'', Bool True)] else [])"

text \<open>The value a flag was given on the command line, as the action sees it.\<close>

definition flag_value :: "invocation \<Rightarrow> string \<Rightarrow> jsval" where
  "flag_value cl k = (case map_of (inv_supplied cl) k of Some v \<Rightarrow> Str v | None \<Rightarrow> Undefined)"

text \<open>What commander does before an action runs (the library is not part of the
  sources; only the outcome is modelled, with the library's wording for the two messages
  that name a declaration): a required flag that was not given, a flag the command does
  not declare, or a missing argument ends the process with status 1 and one line on
  standard error; otherwise the action gets its \<open>options\<close>.\<close>

definition parse_options :: "invocation \<Rightarrow> string + options" where
  "parse_options cl =
     (let decls = option_decls (inv_command cl)
      in case find (\<lambda>d. mandatory d \<and> map_of (inv_supplied cl) (attribute d) = None) decls of
           Some d \<Rightarrow>
             Inl (''error: required option '' @ [CHR 0x27] @ option_flags d @ [CHR 0x27]
                  @ '' not specified'')
         | None \<Rightarrow>
             if (\<exists>k \<in> set (map fst (inv_supplied cl)). k \<notin> set (map attribute decls))
                \<or> (inv_json cl \<and> \<not> accepts_json (inv_command cl))
             then Inl ''error: unknown option''
             else if length (inv_operands cl) < length (arguments (inv_command cl))
             then Inl (''error: missing required argument '' @ [CHR 0x27]
                       @ arguments (inv_command cl) ! length (inv_operands cl)
                       @ [CHR 0x27])
             else Inr (build_options decls (inv_supplied cl) (inv_json cl)))"

definition operand :: "invocation \<Rightarrow> jsval" where
  "operand cl = (case inv_operands cl of [] \<Rightarrow> Undefined | x # xs \<Rightarrow> Str x)"

fun action ::
  "command \<Rightarrow> engine \<Rightarrow> config \<Rightarrow> network \<Rightarrow> jsval \<Rightarrow> options \<Rightarrow> io
     \<Rightarrow> (unit completion \<times> io) \<times> config" where
  "action ConfigSet eng c net arg options w = config_set options c w"
| "action ConfigShow eng c net arg options w = (config_show c w, c)"
| "action TaxCalculate eng c net arg options w = (tax_calculate eng c net options w, c)"
| "action RatesGet eng c net arg options w = (rates_get eng c net options w, c)"
| "action RatesSummary eng c net arg options w = (rates_summary c net options w, c)"
| "action NexusList eng c net arg options w = (nexus_list c net options w, c)"
| "action CategoriesList eng c net arg options w = (categories_list c net options w, c)"
| "action OrdersList eng c net arg options w = (orders_list c net options w, c)"
| "action OrdersGet eng c net arg options w = (orders_get eng c net arg options w, c)"
| "action OrdersCreate eng c net arg options w = (orders_create eng c net options w, c)"
| "action OrdersUpdate eng c net arg options w = (orders_update eng c net arg options w, c)"
| "action OrdersDelete eng c net arg options w = (orders_delete c net arg options w, c)"
| "action RefundsList eng c net arg options w = (refunds_list c net options w, c)"
| "action RefundsGet eng c net arg options w = (refunds_get c net arg options w, c)"
| "action RefundsCreate eng c net arg options w = (refunds_create eng c net options w, c)"
| "action ValidateAddress eng c net arg options w = (validate_address c net options w, c)"
| "action ValidateVat eng c net arg options w = (validate_vat c net arg options w, c)"

text \<open>The exit status of the process: 0 when the action returns, the argument of
  \<open>process.exit\<close> otherwise (an error that nothing catches ends Node with status 1).\<close>

fun exit_status :: "unit completion \<Rightarrow> nat" where
  "exit_status (Normal u) = 0"
| "exit_status (Exited n) = n"
| "exit_status (Thrown e) = 1"

record run_result =
  exit_code :: nat
  final_io :: io
  final_config :: config

definition run :: "engine \<Rightarrow> config \<Rightarrow> network \<Rightarrow> invocation \<Rightarrow> run_result" where
  "run eng c net cl =
     (case parse_options cl of
        Inl msg \<Rightarrow> \<lparr>exit_code = 1, final_io = console_error msg io0, final_config = c\<rparr>
      | Inr options \<Rightarrow>
          (case action (inv_command cl) eng c net (operand cl) options io0 of
             ((r, w), c') \<Rightarrow> \<lparr>exit_code = exit_status r, final_io = w, final_config = c'\<rparr>))"

section \<open>Evaluating numbers and text\<close>

text \<open>Rules that let the simplifier run the recursions on numerals.\<close>

lemma nat_digits_numeral:
  "nat_digits (numeral k) =
     (if (numeral k :: nat) < 10 then [digit_char (numeral k)]
      else nat_digits (numeral k div 10) @ [digit_char (numeral k mod 10)])"
  by (rule nat_digits.simps)

lemma nat_digits_small: "nat_digits 0 = ''0''" "nat_digits (Suc 0) = ''1''"
  by (simp_all add: nat_digits.simps digit_char_def)

lemma replicate_numeral: "replicate (numeral k) x = x # replicate (pred_numeral k) x"
  by (simp add: numeral_eq_Suc)

lemma normalize_decimal_numeral:
  "normalize_decimal m (numeral k) =
     (if m mod 10 = 0 then normalize_decimal (m div 10) (pred_numeral k) else (m, numeral k))"
  by (simp add: numeral_eq_Suc)

lemma skip_any_none:
  assumes "\<forall>p \<in> set ps. p = [] \<or> \<not> prefix p s"
  shows "skip_any ps s = s"
proof -
  have "find (\<lambda>p. p \<noteq> [] \<and> prefix p s) ps = None"
    using assms by (auto simp: find_None_iff)
  then show ?thesis
    by (subst skip_any.simps) simp
qed

lemma trimStart_empty: "trimStart [] = []"
  unfolding trimStart_def by (rule skip_any_none) simp

lemma trimStart_other:
  assumes "ch \<notin> {CHR 0x09, CHR 0x0A, CHR 0x0B, CHR 0x0C, CHR 0x0D, CHR 0x20,
                  CHR 0xC2, CHR 0xE1, CHR 0xE2, CHR 0xE3, CHR 0xEF}"
  shows "trimStart (ch # rest) = ch # rest"
  unfolding trimStart_def
proof (rule skip_any_none)
  from assms
  have "\<forall>c \<in> {CHR 0x09, CHR 0x0A, CHR 0x0B, CHR 0x0C, CHR 0x0D, CHR 0x20,
                  CHR 0xC2, CHR 0xE1, CHR 0xE2, CHR 0xE3, CHR 0xEF}. c \<noteq> ch"
    by fastforce
  then show "\<forall>p \<in> set white_space. p = [] \<or> \<not> prefix p (ch # rest)"
    by (simp add: white_space_def)
qed

lemma trimStart_space:
  assumes "ch \<in> {CHR 0x09, CHR 0x0A, CHR 0x0B, CHR 0x0C, CHR 0x0D, CHR 0x20}"
  shows "trimStart (ch # rest) = trimStart rest"
proof -
  have "find (\<lambda>p. p \<noteq> [] \<and> prefix p (ch # rest)) white_space = Some [ch]"
    using assms by (elim insertE emptyE) (simp_all add: white_space_def)
  then show ?thesis
    unfolding trimStart_def by (subst skip_any.simps) simp
qed

lemma trimStart_nbsp: "trimStart (CHR 0xC2 # CHR 0xA0 # rest) = trimStart rest"
proof -
  have "find (\<lambda>p. p \<noteq> [] \<and> prefix p (CHR 0xC2 # CHR 0xA0 # rest)) white_space
        = Some [CHR 0xC2, CHR 0xA0]"
    by (simp add: white_space_def)
  then show ?thesis
    unfolding trimStart_def by (subst skip_any.simps) simp
qed

lemmas js_eval = nat_digits_numeral nat_digits_small replicate_numeral
  normalize_decimal_numeral digit_char_def strip_zeros_def digits_to_string_def
  parseFloat_def trimStart_empty trimStart_other trimStart_space trimStart_nbsp is_digit_def
  digits_value_def digit_value_def short_decimal_def round_to_double_def exponent_part_def
  Let_def

section \<open>Properties of config.js\<close>

lemma slice_first4: "slice s 0 (Some 4) = take 4 s"
  by (simp add: slice_def rel_index_def Let_def min_def)

lemma slice_last4: "slice s (- 4) None = drop (length s - 4) s"
proof -
  have "nat (max (int (length s) - 4) 0) = length s - 4" by simp
  then show ?thesis by (simp add: slice_def rel_index_def Let_def)
qed

lemma showConfig_stored:
  assumes "stored_apiKey c = Some k" and "k \<noteq> []"
  shows "apiKey (showConfig c) = take 4 k @ ''****'' @ drop (length k - 4) k"
  using assms
  by (simp add: showConfig_def config_get_apiKey_def or_else_def Let_def
      slice_first4 slice_last4)

lemma mask_is_key_iff:
  assumes "8 \<le> length k"
  shows "(take 4 k @ ''****'' @ drop (length k - 4) k = k) =
         (length k = 12 \<and> take 4 (drop 4 k) = ''****'')"
proof
  assume eq: "take 4 k @ ''****'' @ drop (length k - 4) k = k"
  then have "length (take 4 k @ ''****'' @ drop (length k - 4) k) = length k" by simp
  with assms have len: "length k = 12" by simp
  from eq have "drop 4 (take 4 k @ ''****'' @ drop (length k - 4) k) = drop 4 k" by simp
  with assms have "''****'' @ drop (length k - 4) k = drop 4 k" by simp
  then have "take 4 (''****'' @ drop (length k - 4) k) = take 4 (drop 4 k)" by simp
  then have "take 4 (drop 4 k) = ''****''" by simp
  with len show "length k = 12 \<and> take 4 (drop 4 k) = ''****''" by simp
next
  assume a: "length k = 12 \<and> take 4 (drop 4 k) = ''****''"
  have "k = take 4 k @ drop 4 k" by simp
  also have "drop 4 k = take 4 (drop 4 k) @ drop 4 (drop 4 k)"
    by (simp only: append_take_drop_id)
  finally have "k = take 4 k @ ''****'' @ drop 8 k" using a by simp
  with a show "take 4 k @ ''****'' @ drop (length k - 4) k = k" by simp
qed

lemma slices_cover_short_key:
  assumes "length k \<le> 8"
  shows "take 4 k @ drop (4 - (length k - 4)) (drop (length k - 4) k) = k"
proof -
  have "4 - (length k - 4) + (length k - 4) = 4" using assms by arith
  then show ?thesis by simp
qed

subsection \<open>Credential resolution\<close>

text \<open>
  C4 (as amended). \<open>getApiKey\<close> returns the value of \<open>TAXJAR_API_KEY\<close> whenever that
  variable is set to a non-empty string, whatever is stored; when the variable is unset
  or empty it returns the stored key, if that is non-empty; when neither gives a non-empty
  key the process exits with status 1 after four lines on standard error that tell the
  user to run \<open>taxjar config set --api-key\<close> or to set the variable, and nothing is
  sent. \<open>getBaseUrl\<close> is the non-empty value of \<open>TAXJAR_BASE_URL\<close>, else the stored base
  URL, else the production endpoint.
\<close>

theorem getApiKey_precedence:
  "(TAXJAR_API_KEY c = Some e \<and> e \<noteq> [] \<longrightarrow> getApiKey c w = (Normal e, w)) \<and>
   (TAXJAR_API_KEY c \<in> {None, Some []} \<and> stored_apiKey c = Some k \<and> k \<noteq> [] \<longrightarrow>
      getApiKey c w = (Normal k, w)) \<and>
   (TAXJAR_API_KEY c \<in> {None, Some []} \<and> stored_apiKey c \<in> {None, Some []} \<longrightarrow>
      fst (getApiKey c w) = Exited 1 \<and>
      stderr (snd (getApiKey c w)) = stderr w @
        [''Error: No API key configured.'', ''Set your API key with:'',
         ''  taxjar config set --api-key <your-api-key>'',
         ''Or set the TAXJAR_API_KEY environment variable.''] \<and>
      requests (snd (getApiKey c w)) = requests w \<and> stdout (snd (getApiKey c w)) = stdout w) \<and>
   (TAXJAR_BASE_URL c = Some u \<and> u \<noteq> [] \<longrightarrow> getBaseUrl c = u) \<and>
   (TAXJAR_BASE_URL c \<in> {None, Some []} \<and> stored_baseUrl c = Some v \<longrightarrow> getBaseUrl c = v) \<and>
   (TAXJAR_BASE_URL c \<in> {None, Some []} \<and> stored_baseUrl c = None \<longrightarrow>
      getBaseUrl c = ''https://api.taxjar.com/v2'')"
  by (auto simp: getApiKey_def getBaseUrl_def or_else_def config_get_apiKey_def
      config_get_baseUrl_def Let_def console_error_def split: option.splits if_splits)

text \<open>The theorem at three configurations: both sources hold a key; only the store does;
  neither does.\<close>

theorem getApiKey_precedence_witness:
  "getApiKey \<lparr>TAXJAR_API_KEY = Some ''env-key-0001'', TAXJAR_BASE_URL = None,
              stored_apiKey = Some ''stored-key-0002'', stored_baseUrl = None,
              config_path = ''config.json''\<rparr> io0 = (Normal ''env-key-0001'', io0) \<and>
   getApiKey \<lparr>TAXJAR_API_KEY = None, TAXJAR_BASE_URL = None,
              stored_apiKey = Some ''stored-key-0002'', stored_baseUrl = None,
              config_path = ''config.json''\<rparr> io0 = (Normal ''stored-key-0002'', io0) \<and>
   fst (getApiKey \<lparr>TAXJAR_API_KEY = None, TAXJAR_BASE_URL = None,
              stored_apiKey = None, stored_baseUrl = None,
              config_path = ''config.json''\<rparr> io0) = Exited 1 \<and>
   getBaseUrl \<lparr>TAXJAR_API_KEY = None, TAXJAR_BASE_URL = None,
              stored_apiKey = None, stored_baseUrl = None,
              config_path = ''config.json''\<rparr> = ''https://api.taxjar.com/v2''"
  using
    getApiKey_precedence [of "\<lparr>TAXJAR_API_KEY = Some ''env-key-0001'', TAXJAR_BASE_URL = None,
              stored_apiKey = Some ''stored-key-0002'', stored_baseUrl = None,
              config_path = ''config.json''\<rparr>" "''env-key-0001''" io0]
    getApiKey_precedence [of "\<lparr>TAXJAR_API_KEY = None, TAXJAR_BASE_URL = None,
              stored_apiKey = Some ''stored-key-0002'', stored_baseUrl = None,
              config_path = ''config.json''\<rparr>" _ io0 "''stored-key-0002''"]
    getApiKey_precedence [of "\<lparr>TAXJAR_API_KEY = None, TAXJAR_BASE_URL = None,
              stored_apiKey = None, stored_baseUrl = None,
              config_path = ''config.json''\<rparr>" _ io0]
  by simp

text \<open>The variable may be set and empty (\<open>TAXJAR_API_KEY= taxjar ...\<close>). It is then not
  used: the stored key is returned.\<close>

theorem getApiKey_empty_env_counterexample:
  "TAXJAR_API_KEY \<lparr>TAXJAR_API_KEY = Some [], TAXJAR_BASE_URL = None,
              stored_apiKey = Some ''stored-key-0002'', stored_baseUrl = None,
              config_path = ''config.json''\<rparr> \<noteq> None \<and>
   getApiKey \<lparr>TAXJAR_API_KEY = Some [], TAXJAR_BASE_URL = None,
              stored_apiKey = Some ''stored-key-0002'', stored_baseUrl = None,
              config_path = ''config.json''\<rparr> io0 = (Normal ''stored-key-0002'', io0)"
  by (simp add: getApiKey_def or_else_def config_get_apiKey_def)

subsection \<open>The masked view\<close>

text \<open>
  C5 (as amended). For a stored API key of at least 8 characters, the \<open>apiKey\<close> field that
  \<open>showConfig\<close> returns is the key's first 4 characters, the fixed mask \<open>****\<close> and the
  key's last 4 characters: 12 characters whatever the key's length, and nothing of the
  key between its first and last 4 characters. The field is the raw key itself exactly
  when the key has 12 characters of which the middle four are \<open>****\<close>.
\<close>

theorem showConfig_masks_key:
  assumes "stored_apiKey c = Some k" and "8 \<le> length k"
  shows "apiKey (showConfig c) = take 4 k @ ''****'' @ drop (length k - 4) k \<and>
         length (apiKey (showConfig c)) = 12 \<and>
         (apiKey (showConfig c) = k) = (length k = 12 \<and> take 4 (drop 4 k) = ''****'')"
proof -
  from assms have ne: "k \<noteq> []" by auto
  have view: "apiKey (showConfig c) = take 4 k @ ''****'' @ drop (length k - 4) k"
    by (rule showConfig_stored [OF assms(1) ne])
  have len: "length (take 4 k @ ''****'' @ drop (length k - 4) k) = 12"
    using assms(2) by simp
  show ?thesis
    using view len mask_is_key_iff [OF assms(2)] by simp
qed

theorem showConfig_masks_key_witness:
  "apiKey (showConfig \<lparr>TAXJAR_API_KEY = None, TAXJAR_BASE_URL = None,
       stored_apiKey = Some ''5da2f821eee4035db4771edab942a4cc'', stored_baseUrl = None,
       config_path = ''config.json''\<rparr>) = ''5da2****a4cc''"
  using showConfig_masks_key [of "\<lparr>TAXJAR_API_KEY = None, TAXJAR_BASE_URL = None,
       stored_apiKey = Some ''5da2f821eee4035db4771edab942a4cc'', stored_baseUrl = None,
       config_path = ''config.json''\<rparr>" "''5da2f821eee4035db4771edab942a4cc''"]
  by simp

text \<open>A stored key that already has the mask's shape comes back unchanged.\<close>

theorem showConfig_raw_key_counterexample:
  "8 \<le> length ''abcd****wxyz'' \<and>
   apiKey (showConfig \<lparr>TAXJAR_API_KEY = None, TAXJAR_BASE_URL = None,
       stored_apiKey = Some ''abcd****wxyz'', stored_baseUrl = None,
       config_path = ''config.json''\<rparr>) = ''abcd****wxyz''"
  by (simp add: showConfig_def config_get_apiKey_def or_else_def Let_def
      slice_first4 slice_last4)

text \<open>
  C8. When \<open>TAXJAR_API_KEY\<close> is set and a non-empty key is stored, \<open>showConfig\<close> masks the
  stored key, while \<open>getApiKey\<close>, and with it the \<open>Authorization\<close> header of every client,
  uses the (non-empty) environment key: the display can show another credential than the
  one requests carry.
\<close>

theorem showConfig_prefers_stored_key:
  assumes "stored_apiKey c = Some s" and "s \<noteq> []" and "TAXJAR_API_KEY c = Some e"
  shows "apiKey (showConfig c) = take 4 s @ ''****'' @ drop (length s - 4) s \<and>
         (e \<noteq> [] \<longrightarrow> getApiKey c w = (Normal e, w) \<and>
            (\<exists>cl. createClient c w = (Normal cl, w) \<and>
                  client_authorization cl = ''Bearer '' @ e))"
  using assms showConfig_stored [OF assms(1) assms(2)]
  by (simp add: getApiKey_def createClient_def or_else_def Let_def)

theorem showConfig_prefers_stored_key_witness:
  "apiKey (showConfig \<lparr>TAXJAR_API_KEY = Some ''env-key-0001'', TAXJAR_BASE_URL = None,
       stored_apiKey = Some ''stored-key-0002'', stored_baseUrl = None,
       config_path = ''config.json''\<rparr>) = ''stor****0002'' \<and>
   getApiKey \<lparr>TAXJAR_API_KEY = Some ''env-key-0001'', TAXJAR_BASE_URL = None,
       stored_apiKey = Some ''stored-key-0002'', stored_baseUrl = None,
       config_path = ''config.json''\<rparr> io0 = (Normal ''env-key-0001'', io0)"
  using showConfig_prefers_stored_key [of "\<lparr>TAXJAR_API_KEY = Some ''env-key-0001'',
       TAXJAR_BASE_URL = None, stored_apiKey = Some ''stored-key-0002'',
       stored_baseUrl = None, config_path = ''config.json''\<rparr>"
       "''stored-key-0002''" "''env-key-0001''" io0]
  by simp

text \<open>
  C9. For a non-empty stored API key of at most 8 characters, the two slices that
  \<open>showConfig\<close> leaves visible cover the whole key: the view is the leading slice, the
  mask and the trailing slice, and the leading slice followed by the trailing slice
  without their overlap is the key itself. Every character of the key is in the view.
\<close>

theorem showConfig_short_key_revealed:
  assumes "stored_apiKey c = Some k" and "k \<noteq> []" and "length k \<le> 8"
  shows "apiKey (showConfig c) = take 4 k @ ''****'' @ drop (length k - 4) k \<and>
         take 4 k @ drop (4 - (length k - 4)) (drop (length k - 4) k) = k \<and>
         set k \<subseteq> set (apiKey (showConfig c))"
proof -
  have view: "apiKey (showConfig c) = take 4 k @ ''****'' @ drop (length k - 4) k"
    by (rule showConfig_stored [OF assms(1) assms(2)])
  have cover: "take 4 k @ drop (4 - (length k - 4)) (drop (length k - 4) k) = k"
    by (rule slices_cover_short_key [OF assms(3)])
  have "set (drop (4 - (length k - 4)) (drop (length k - 4) k)) \<subseteq> set (drop (length k - 4) k)"
    by (rule set_drop_subset)
  then have "set (take 4 k @ drop (4 - (length k - 4)) (drop (length k - 4) k))
      \<subseteq> set (take 4 k @ ''****'' @ drop (length k - 4) k)"
    by auto
  with cover have "set k \<subseteq> set (take 4 k @ ''****'' @ drop (length k - 4) k)"
    by simp
  with view cover show ?thesis by simp
qed

theorem showConfig_short_key_revealed_witness:
  "apiKey (showConfig \<lparr>TAXJAR_API_KEY = None, TAXJAR_BASE_URL = None,
       stored_apiKey = Some ''secret'', stored_baseUrl = None,
       config_path = ''config.json''\<rparr>) = ''secr****cret''"
  using showConfig_short_key_revealed [of "\<lparr>TAXJAR_API_KEY = None, TAXJAR_BASE_URL = None,
       stored_apiKey = Some ''secret'', stored_baseUrl = None,
       config_path = ''config.json''\<rparr>" "''secret''"]
  by simp

section \<open>Properties of api.js\<close>

lemma getApiKey_any_io:
  "getApiKey c w0 = (Normal key, w0) \<Longrightarrow> getApiKey c w = (Normal key, w)"
  by (simp add: getApiKey_def Let_def split: if_splits)

lemma createClient_with_key:
  assumes "getApiKey c w0 = (Normal key, w0)"
  shows "createClient c w =
     (Normal \<lparr>client_baseURL = getBaseUrl c, client_authorization = ''Bearer '' @ key,
              client_content_type = ''application/json'', client_timeout = 30000\<rparr>, w)"
  by (simp add: createClient_def getApiKey_any_io [OF assms])

lemma api_call_with_key:
  assumes "getApiKey c w0 = (Normal key, w0)"
  shows "api_call c net method u ps d f w =
     (case net (request_of c key method u ps d) of
        Responded status body \<Rightarrow>
          if 200 \<le> status \<and> status < 300
          then (case read_prop body f of
                  Inr v \<Rightarrow>
                    (Normal v, w\<lparr>requests := requests w @ [request_of c key method u ps d]\<rparr>)
                | Inl e \<Rightarrow>
                    (Thrown (handleError e),
                     w\<lparr>requests := requests w @ [request_of c key method u ps d]\<rparr>))
          else (Thrown (handleError
                   (AxiosError (''Request failed with status code '' @ nat_digits status)
                      True (Some (status, body)))),
                w\<lparr>requests := requests w @ [request_of c key method u ps d]\<rparr>)
      | NoResponse m \<Rightarrow>
          (Thrown (handleError (AxiosError m True None)),
           w\<lparr>requests := requests w @ [request_of c key method u ps d]\<rparr>)
      | NotSent m \<Rightarrow>
          (Thrown (handleError (AxiosError m False None)),
           w\<lparr>requests := requests w @ [request_of c key method u ps d]\<rparr>))"
  unfolding request_of_def
  by (simp add: api_call_def createClient_with_key [OF assms] axios_request_def try_return_def
      Let_def split: outcome.splits sum.splits)

lemma api_call_io:
  assumes "getApiKey c w0 = (Normal key, w0)"
  shows "snd (api_call c net method u ps d f w) =
         w\<lparr>requests := requests w @ [request_of c key method u ps d]\<rparr>"
  by (simp add: api_call_with_key [OF assms] split: outcome.splits sum.splits)

lemma api_call_without_key:
  assumes "fst (getApiKey c w) = Exited n"
  shows "fst (api_call c net method u ps d f w) = Exited n"
    and "requests (snd (api_call c net method u ps d f w)) = requests w"
    and "stdout (snd (api_call c net method u ps d f w)) = stdout w"
  using assms
  by (auto simp: api_call_def createClient_def getApiKey_def Let_def console_error_def
      split: if_splits)






section \<open>Properties of index.js\<close>

subsection \<open>Printing sends nothing\<close>

lemma requests_console [simp]:
  "requests (console_log s w) = requests w"
  "requests (console_error s w) = requests w"
  "requests (spin e w) = requests w"
  "requests (printSuccess s w) = requests w"
  by (simp_all add: console_log_def console_error_def spin_def printSuccess_def)

lemma log_lines_requests [simp]: "requests (snd (log_lines ls w)) = requests w"
proof (induction ls arbitrary: w)
  case Nil
  show ?case by simp
next
  case (Cons l ls)
  show ?case by (cases l) (simp_all add: Cons.IH)
qed

lemma printJson_requests [simp]: "requests (snd (printJson d w)) = requests w"
  by (simp add: printJson_def)

lemma printTable_requests [simp]: "requests (snd (printTable d cols w)) = requests w"
  by (simp add: printTable_def split: jsval.splits list.splits option.splits sum.splits)

lemma then_do_requests:
  assumes "\<And>v w'. requests (snd (f v w')) = requests w'"
  shows "requests (snd (then_do r f)) = requests (snd r)"
proof (cases r)
  case (Pair x w')
  then show ?thesis by (cases x) (simp_all add: then_do_def assms)
qed

lemma try_catch_requests [simp]:
  "requests (snd (try_catch t body w)) = requests (snd (body w))"
proof (cases "body w")
  case (Pair x w')
  then show ?thesis by (cases x) (simp_all add: try_catch_def)
qed

lemma list_command_requests:
  assumes "\<And>items w'. requests (snd (show items w')) = requests w'"
  shows "requests (snd (list_command st ft sx show fetch options w)) =
         requests (snd (fetch (spin (SpinStart st) w)))"
  unfolding list_command_def try_catch_requests
  by (rule then_do_requests) (simp add: assms split: sum.splits)

lemma print_ids_requests [simp]: "requests (snd (print_ids n ids w)) = requests w"
  by (simp add: print_ids_def split: jsval.splits)

lemma tax_calculate_requests:
  "requests (snd (tax_calculate eng c net options w)) =
   requests (snd (calculateTax c net (tax_calculate_params eng options)
                    (spin (SpinStart ''Calculating tax...'') w)))"
  unfolding tax_calculate_def try_catch_requests
  by (rule then_do_requests) simp

lemma orders_create_requests:
  "requests (snd (orders_create eng c net options w)) =
   requests (snd (createOrder c net (orders_create_params eng options)
                    (spin (SpinStart ''Creating order...'') w)))"
  unfolding orders_create_def try_catch_requests
  by (rule then_do_requests) simp

lemma orders_update_requests:
  "requests (snd (orders_update eng c net tid options w)) =
   requests (snd (updateOrder c net tid (orders_update_params eng tid options)
                    (spin (SpinStart (''Updating order '' @ to_string tid @ ''...'')) w)))"
  unfolding orders_update_def try_catch_requests
  by (rule then_do_requests) simp

lemma refunds_create_requests:
  "requests (snd (refunds_create eng c net options w)) =
   requests (snd (createRefund c net (refunds_create_params eng options)
                    (spin (SpinStart ''Creating refund...'') w)))"
  unfolding refunds_create_def try_catch_requests
  by (rule then_do_requests) simp

subsection \<open>What commander hands to an action\<close>

lemma map_of_option_entry:
  "map_of (option_entry supplied d @ rest) k =
     (if attribute d = k
      then (case map_of supplied k of
              Some v \<Rightarrow> Some (Str v)
            | None \<Rightarrow> (case default_value d of Some v \<Rightarrow> Some (Str v) | None \<Rightarrow> map_of rest k))
      else map_of rest k)"
  by (simp add: option_entry_def split: option.splits)

lemma map_of_entries_absent:
  "k \<notin> attribute ` set decls \<Longrightarrow>
   map_of (concat (map (option_entry supplied) decls) @ rest) k = map_of rest k"
proof (induction decls)
  case Nil
  show ?case by simp
next
  case (Cons d ds)
  then show ?case
    by (auto simp add: map_of_option_entry simp del: map_of_append split: option.splits)
qed

lemma map_of_entries:
  "distinct (map attribute decls) \<Longrightarrow>
   map_of (concat (map (option_entry supplied) decls) @ rest) k =
     (case find (\<lambda>d. attribute d = k) decls of
        Some d \<Rightarrow>
          (case map_of supplied k of
             Some v \<Rightarrow> Some (Str v)
           | None \<Rightarrow> (case default_value d of Some v \<Rightarrow> Some (Str v) | None \<Rightarrow> map_of rest k))
      | None \<Rightarrow> map_of rest k)"
proof (induction decls)
  case Nil
  show ?case by simp
next
  case (Cons d ds)
  show ?case
  proof (cases "attribute d = k")
    case True
    with Cons.prems have "k \<notin> attribute ` set ds" by auto
    then have "map_of (concat (map (option_entry supplied) ds) @ rest) k = map_of rest k"
      by (rule map_of_entries_absent)
    with True show ?thesis
      by (auto simp add: map_of_option_entry simp del: map_of_append split: option.splits)
  next
    case False
    with Cons show ?thesis
      by (auto simp add: map_of_option_entry simp del: map_of_append split: option.splits)
  qed
qed

lemma opt_build_options:
  assumes "distinct (map attribute decls)"
  shows "opt (build_options decls supplied False) k =
     (case find (\<lambda>d. attribute d = k) decls of
        Some d \<Rightarrow>
          (case map_of supplied k of
             Some v \<Rightarrow> Str v
           | None \<Rightarrow> (case default_value d of Some v \<Rightarrow> Str v | None \<Rightarrow> Undefined))
      | None \<Rightarrow> Undefined)"
  using map_of_entries [OF assms, of supplied "[]" k]
  by (simp add: opt_def field_def build_options_def split: option.splits)

lemma parse_options_ok:
  assumes "set (map fst (inv_supplied cl)) = set (required_attributes (inv_command cl))"
    and "\<not> inv_json cl"
    and "length (inv_operands cl) = length (arguments (inv_command cl))"
  shows "parse_options cl =
         Inr (build_options (option_decls (inv_command cl)) (inv_supplied cl) False)"
proof -
  have given: "map_of (inv_supplied cl) (attribute d) \<noteq> None"
    if "d \<in> set (option_decls (inv_command cl))" and "mandatory d" for d
  proof -
    from that have "attribute d \<in> set (required_attributes (inv_command cl))"
      by (auto simp: required_attributes_def)
    with assms(1) have "attribute d \<in> fst ` set (inv_supplied cl)" by simp
    then show ?thesis by (simp add: map_of_eq_None_iff)
  qed
  then have none: "find (\<lambda>d. mandatory d \<and> map_of (inv_supplied cl) (attribute d) = None)
                    (option_decls (inv_command cl)) = None"
    by (auto simp: find_None_iff)
  have known: "k \<in> set (map attribute (option_decls (inv_command cl)))"
    if "k \<in> set (map fst (inv_supplied cl))" for k
    using that assms(1) by (auto simp: required_attributes_def)
  show ?thesis
    using none known assms(2,3) by (auto simp: parse_options_def Let_def)
qed

lemma absent_flag:
  assumes "set (map fst (inv_supplied cl)) = set (required_attributes (inv_command cl))"
    and "k \<notin> set (required_attributes (inv_command cl))"
  shows "map_of (inv_supplied cl) k = None"
  using assms by (simp add: map_of_eq_None_iff)

lemma given_flag:
  assumes "set (map fst (inv_supplied cl)) = set (required_attributes (inv_command cl))"
    and "k \<in> set (required_attributes (inv_command cl))"
  shows "\<exists>v. flag_value cl k = Str v"
proof -
  from assms have "k \<in> fst ` set (inv_supplied cl)" by simp
  then have "map_of (inv_supplied cl) k \<noteq> None" by (simp add: map_of_eq_None_iff)
  then show ?thesis by (auto simp: flag_value_def)
qed

subsection \<open>The request of each command\<close>

lemma api_call_requests:
  assumes "getApiKey c w0 = (Normal key, w0)"
  shows "requests (snd (api_call c net mth u ps d f w)) =
         requests w @ [request_of c key mth u ps d]"
  by (simp add: api_call_io [OF assms])

lemma parseFloat_zero: "parseFloat eng ''0'' = Finite 0 0"
  by (simp add: js_eval)

lemma rates_get_requests:
  "requests (snd (rates_get eng c net options w)) =
   requests (snd (getRates c net (opt options ''zip'') (rates_get_params options)
        (spin (SpinStart (''Fetching rates for '' @ to_string (opt options ''zip'') @ ''...'')) w)))"
  unfolding rates_get_def try_catch_requests
  by (rule then_do_requests) simp

lemma orders_get_requests:
  "requests (snd (orders_get eng c net tid options w)) =
   requests (snd (getOrder c net tid
        (spin (SpinStart (''Fetching order '' @ to_string tid @ ''...'')) w)))"
  unfolding orders_get_def try_catch_requests
proof (rule then_do_requests)
  fix order w'
  have inner: "requests (snd (then_do (log_lines ls w1) (\<lambda>u. printTable d cols))) = requests w1"
    for ls w1 d cols
    by (simp add: then_do_requests [where f = "\<lambda>u. printTable d cols"])
  have "requests (snd (then_do (log_lines ls w1)
          (\<lambda>u w. if b then then_do (log_lines ls2 w) (\<lambda>u. printTable d cols)
                   else (Normal (), w)))) = requests w1" for ls w1 b ls2 d cols
    by (subst then_do_requests) (simp_all add: inner)
  then show "requests (snd (if truthy (opt options ''json'')
             then printJson order (spin (SpinSucceed ''Order retrieved'') w')
             else then_do
                   (log_lines (orders_get_lines order)
                     (spin (SpinSucceed ''Order retrieved'') w'))
                   (\<lambda>u w. if has_line_items eng order
                           then then_do
                                 (log_lines
                                   (line [] @ line ''Line Items'' @ line (hbar 10)) w)
                                 (\<lambda>u. printTable (field order ''line_items'')
                                         [(''id'', ''ID''), (''description'', ''Description''),
                                          (''quantity'', ''Qty''),
                                          (''unit_price'', ''Unit Price''),
                                          (''sales_tax'', ''Sales Tax'')])
                           else (Normal (), w)))) = requests w'"
    by simp
qed

lemma orders_delete_requests:
  "requests (snd (orders_delete c net tid options w)) =
   requests (snd (deleteOrder c net tid
        (spin (SpinStart (''Deleting order '' @ to_string tid @ ''...'')) w)))"
  unfolding orders_delete_def try_catch_requests
  by (rule then_do_requests) simp

lemma refunds_get_requests:
  "requests (snd (refunds_get c net tid options w)) =
   requests (snd (getRefund c net tid
        (spin (SpinStart (''Fetching refund '' @ to_string tid @ ''...'')) w)))"
  unfolding refunds_get_def try_catch_requests
  by (rule then_do_requests) simp

lemma validate_vat_requests:
  "requests (snd (validate_vat c net vat options w)) =
   requests (snd (validateVat c net vat
        (spin (SpinStart (''Validating VAT: '' @ to_string vat @ ''...'')) w)))"
  unfolding validate_vat_def try_catch_requests
  by (rule then_do_requests) simp

lemma rates_summary_requests:
  "requests (snd (rates_summary c net options w)) =
   requests (snd (getSummaryRates c net (spin (SpinStart ''Fetching summary rates...'') w)))"
  unfolding rates_summary_def by (rule list_command_requests) simp

lemma nexus_list_requests:
  "requests (snd (nexus_list c net options w)) =
   requests (snd (getNexusRegions c net (spin (SpinStart ''Fetching nexus regions...'') w)))"
  unfolding nexus_list_def by (rule list_command_requests) simp

lemma categories_list_requests:
  "requests (snd (categories_list c net options w)) =
   requests (snd (getCategories c net (spin (SpinStart ''Fetching categories...'') w)))"
  unfolding categories_list_def by (rule list_command_requests) simp

lemma orders_list_requests:
  "requests (snd (orders_list c net options w)) =
   requests (snd (listOrders c net (orders_list_params options)
                    (spin (SpinStart ''Fetching orders...'') w)))"
  unfolding orders_list_def
  by (rule list_command_requests) (simp add: then_do_requests)

lemma refunds_list_requests:
  "requests (snd (refunds_list c net options w)) =
   requests (snd (listRefunds c net (refunds_list_params options)
                    (spin (SpinStart ''Fetching refunds...'') w)))"
  unfolding refunds_list_def by (rule list_command_requests) simp

lemma validate_address_requests:
  "requests (snd (validate_address c net options w)) =
   requests (snd (validateAddress c net (validate_address_params options)
                    (spin (SpinStart ''Validating address...'') w)))"
  unfolding validate_address_def
  by (rule list_command_requests) (simp split: jsval.splits)

lemma config_requests [simp]:
  "requests (snd (fst (config_set options c w))) = requests w"
  "requests (snd (config_show c w)) = requests w"
  by (simp_all add: config_set_def config_show_def Let_def)

lemmas action_requests =
  tax_calculate_requests rates_get_requests rates_summary_requests nexus_list_requests
  categories_list_requests orders_list_requests orders_get_requests orders_create_requests
  orders_update_requests orders_delete_requests refunds_list_requests refunds_get_requests
  refunds_create_requests validate_address_requests validate_vat_requests

lemmas api_defs =
  calculateTax_def getRates_def getNexusRegions_def getCategories_def listOrders_def
  getOrder_def createOrder_def updateOrder_def deleteOrder_def listRefunds_def getRefund_def
  createRefund_def validateAddress_def validateVat_def getSummaryRates_def

lemma run_requests:
  assumes "parse_options cl = Inr options"
  shows "requests (final_io (run eng c net cl)) =
         requests (snd (fst (action (inv_command cl) eng c net (operand cl) options io0)))"
  by (simp add: run_def assms split: prod.splits)


lemma operand_given:
  "length (inv_operands cl) = Suc n \<Longrightarrow> \<exists>x. operand cl = Str x"
  by (cases "inv_operands cl") (simp_all add: operand_def)

lemma params_tax_calculate:
  assumes cmd: "inv_command cl = TaxCalculate"
    and given: "set (map fst (inv_supplied cl)) = set (required_attributes (inv_command cl))"
  shows "tax_calculate_params eng (build_options (option_decls TaxCalculate) (inv_supplied cl) False) =
     Obj [(''from_country'', flag_value cl ''fromCountry''),
          (''from_zip'', flag_value cl ''fromZip''),
          (''from_state'', flag_value cl ''fromState''),
          (''to_country'', flag_value cl ''toCountry''),
          (''to_zip'', flag_value cl ''toZip''),
          (''to_state'', flag_value cl ''toState''),
          (''amount'', Num (parseFloat eng (to_string (flag_value cl ''amount'')))),
          (''shipping'', Num (Finite 0 0))]"
proof -
  have absent: "map_of (inv_supplied cl) k = None"
    if "k \<in> {''shipping'', ''fromCity'', ''fromStreet'', ''toCity'', ''toStreet''}" for k
    using that by (intro absent_flag [OF given]) (auto simp: cmd required_attributes_def)
  show ?thesis
    by (simp add: tax_calculate_params_def number_param_def optional_param_def
        opt_build_options absent flag_value_def parseFloat_zero cong: option.case_cong)
qed

lemma params_rates_get:
  assumes cmd: "inv_command cl = RatesGet"
    and given: "set (map fst (inv_supplied cl)) = set (required_attributes (inv_command cl))"
  shows "rates_get_params (build_options (option_decls RatesGet) (inv_supplied cl) False) =
           Obj [(''country'', Str ''US'')]"
    and "opt (build_options (option_decls RatesGet) (inv_supplied cl) False) ''zip'' =
           flag_value cl ''zip''"
proof -
  have absent: "map_of (inv_supplied cl) k = None"
    if "k \<in> {''country'', ''city'', ''street'', ''state''}" for k
    using that by (intro absent_flag [OF given]) (auto simp: cmd required_attributes_def)
  show "rates_get_params (build_options (option_decls RatesGet) (inv_supplied cl) False) =
           Obj [(''country'', Str ''US'')]"
    by (simp add: rates_get_params_def optional_param_def opt_build_options absent
        cong: option.case_cong)
  show "opt (build_options (option_decls RatesGet) (inv_supplied cl) False) ''zip'' =
           flag_value cl ''zip''"
    by (simp add: opt_build_options flag_value_def cong: option.case_cong)
qed

lemma params_orders_list:
  assumes cmd: "inv_command cl = OrdersList"
    and given: "set (map fst (inv_supplied cl)) = set (required_attributes (inv_command cl))"
  shows "orders_list_params (build_options (option_decls OrdersList) (inv_supplied cl) False) =
           Obj []"
proof -
  have absent: "map_of (inv_supplied cl) k = None"
    if "k \<in> {''fromDate'', ''toDate'', ''status''}" for k
    using that by (intro absent_flag [OF given]) (auto simp: cmd required_attributes_def)
  show ?thesis
    by (simp add: orders_list_params_def optional_param_def opt_build_options absent
        cong: option.case_cong)
qed

lemma params_refunds_list:
  assumes cmd: "inv_command cl = RefundsList"
    and given: "set (map fst (inv_supplied cl)) = set (required_attributes (inv_command cl))"
  shows "refunds_list_params (build_options (option_decls RefundsList) (inv_supplied cl) False) =
           Obj []"
proof -
  have absent: "map_of (inv_supplied cl) k = None"
    if "k \<in> {''fromDate'', ''toDate''}" for k
    using that by (intro absent_flag [OF given]) (auto simp: cmd required_attributes_def)
  show ?thesis
    by (simp add: refunds_list_params_def optional_param_def opt_build_options absent
        cong: option.case_cong)
qed

lemma params_orders_create:
  assumes cmd: "inv_command cl = OrdersCreate"
    and given: "set (map fst (inv_supplied cl)) = set (required_attributes (inv_command cl))"
  shows "orders_create_params eng (build_options (option_decls OrdersCreate) (inv_supplied cl) False) =
     Obj [(''transaction_id'', flag_value cl ''transactionId''),
          (''transaction_date'', flag_value cl ''transactionDate''),
          (''to_country'', flag_value cl ''toCountry''),
          (''to_zip'', flag_value cl ''toZip''),
          (''to_state'', flag_value cl ''toState''),
          (''amount'', Num (parseFloat eng (to_string (flag_value cl ''amount'')))),
          (''shipping'', Num (parseFloat eng (to_string (flag_value cl ''shipping'')))),
          (''sales_tax'', Num (parseFloat eng (to_string (flag_value cl ''salesTax''))))]"
proof -
  have absent: "map_of (inv_supplied cl) k = None"
    if "k \<in> {''fromCountry'', ''fromZip'', ''fromState'', ''toCity'', ''fromCity''}" for k
    using that by (intro absent_flag [OF given]) (auto simp: cmd required_attributes_def)
  show ?thesis
    by (simp add: orders_create_params_def number_param_def optional_param_def
        opt_build_options absent flag_value_def cong: option.case_cong)
qed

lemma params_orders_update:
  assumes cmd: "inv_command cl = OrdersUpdate"
    and given: "set (map fst (inv_supplied cl)) = set (required_attributes (inv_command cl))"
  shows "orders_update_params eng tid
           (build_options (option_decls OrdersUpdate) (inv_supplied cl) False) =
           Obj [(''transaction_id'', tid)]"
proof -
  have absent: "map_of (inv_supplied cl) k = None"
    if "k \<in> {''amount'', ''shipping'', ''salesTax'', ''transactionDate''}" for k
    using that by (intro absent_flag [OF given]) (auto simp: cmd required_attributes_def)
  show ?thesis
    by (simp add: orders_update_params_def optional_number_param_def optional_param_def
        opt_build_options absent cong: option.case_cong)
qed

lemma params_refunds_create:
  "refunds_create_params eng (build_options (option_decls RefundsCreate) (inv_supplied cl) False) =
     Obj [(''transaction_id'', flag_value cl ''transactionId''),
          (''transaction_date'', flag_value cl ''transactionDate''),
          (''transaction_reference_id'', flag_value cl ''transactionReferenceId''),
          (''to_country'', flag_value cl ''toCountry''),
          (''to_zip'', flag_value cl ''toZip''),
          (''to_state'', flag_value cl ''toState''),
          (''amount'', Num (parseFloat eng (to_string (flag_value cl ''amount'')))),
          (''shipping'', Num (parseFloat eng (to_string (flag_value cl ''shipping'')))),
          (''sales_tax'', Num (parseFloat eng (to_string (flag_value cl ''salesTax''))))]"
  by (simp add: refunds_create_params_def number_param_def
      opt_build_options flag_value_def cong: option.case_cong)

lemma params_validate_address:
  assumes cmd: "inv_command cl = ValidateAddress"
    and given: "set (map fst (inv_supplied cl)) = set (required_attributes (inv_command cl))"
  shows "validate_address_params
           (build_options (option_decls ValidateAddress) (inv_supplied cl) False) =
           Obj [(''country'', flag_value cl ''country'')]"
proof -
  have absent: "map_of (inv_supplied cl) k = None"
    if "k \<in> {''state'', ''zip'', ''city'', ''street''}" for k
    using that by (intro absent_flag [OF given]) (auto simp: cmd required_attributes_def)
  show ?thesis
    by (simp add: validate_address_params_def optional_param_def opt_build_options absent
        flag_value_def cong: option.case_cong)
qed

lemma run_required_flags:
  assumes key: "getApiKey c io0 = (Normal key, io0)"
    and given: "set (map fst (inv_supplied cl)) = set (required_attributes (inv_command cl))"
    and nojson: "\<not> inv_json cl"
    and args: "length (inv_operands cl) = length (arguments (inv_command cl))"
  shows "requests (final_io (run eng c net cl)) =
     (case inv_command cl of
        ConfigSet \<Rightarrow> []
      | ConfigShow \<Rightarrow> []
      | TaxCalculate \<Rightarrow>
          [request_of c key ''post'' ''/taxes'' None
             (Some (Obj [(''from_country'', flag_value cl ''fromCountry''),
                         (''from_zip'', flag_value cl ''fromZip''),
                         (''from_state'', flag_value cl ''fromState''),
                         (''to_country'', flag_value cl ''toCountry''),
                         (''to_zip'', flag_value cl ''toZip''),
                         (''to_state'', flag_value cl ''toState''),
                         (''amount'', Num (parseFloat eng (to_string (flag_value cl ''amount'')))),
                         (''shipping'', Num (Finite 0 0))]))]
      | RatesGet \<Rightarrow>
          [request_of c key ''get''
             (''/rates/'' @ encodeURIComponent (to_string (flag_value cl ''zip'')))
             (Some (Obj [(''country'', Str ''US'')])) None]
      | RatesSummary \<Rightarrow> [request_of c key ''get'' ''/summary_rates'' None None]
      | NexusList \<Rightarrow> [request_of c key ''get'' ''/nexus/regions'' None None]
      | CategoriesList \<Rightarrow> [request_of c key ''get'' ''/categories'' None None]
      | OrdersList \<Rightarrow> [request_of c key ''get'' ''/transactions/orders'' (Some (Obj [])) None]
      | OrdersGet \<Rightarrow>
          [request_of c key ''get''
             (''/transactions/orders/'' @ encodeURIComponent (to_string (operand cl)))
             None None]
      | OrdersCreate \<Rightarrow>
          [request_of c key ''post'' ''/transactions/orders'' None
             (Some (Obj [(''transaction_id'', flag_value cl ''transactionId''),
                         (''transaction_date'', flag_value cl ''transactionDate''),
                         (''to_country'', flag_value cl ''toCountry''),
                         (''to_zip'', flag_value cl ''toZip''),
                         (''to_state'', flag_value cl ''toState''),
                         (''amount'', Num (parseFloat eng (to_string (flag_value cl ''amount'')))),
                         (''shipping'',
                            Num (parseFloat eng (to_string (flag_value cl ''shipping'')))),
                         (''sales_tax'',
                            Num (parseFloat eng (to_string (flag_value cl ''salesTax''))))]))]
      | OrdersUpdate \<Rightarrow>
          [request_of c key ''put''
             (''/transactions/orders/'' @ encodeURIComponent (to_string (operand cl)))
             None (Some (Obj [(''transaction_id'', operand cl)]))]
      | OrdersDelete \<Rightarrow>
          [request_of c key ''delete''
             (''/transactions/orders/'' @ encodeURIComponent (to_string (operand cl)))
             None None]
      | RefundsList \<Rightarrow> [request_of c key ''get'' ''/transactions/refunds'' (Some (Obj [])) None]
      | RefundsGet \<Rightarrow>
          [request_of c key ''get''
             (''/transactions/refunds/'' @ encodeURIComponent (to_string (operand cl)))
             None None]
      | RefundsCreate \<Rightarrow>
          [request_of c key ''post'' ''/transactions/refunds'' None
             (Some (Obj [(''transaction_id'', flag_value cl ''transactionId''),
                         (''transaction_date'', flag_value cl ''transactionDate''),
                         (''transaction_reference_id'',
                            flag_value cl ''transactionReferenceId''),
                         (''to_country'', flag_value cl ''toCountry''),
                         (''to_zip'', flag_value cl ''toZip''),
                         (''to_state'', flag_value cl ''toState''),
                         (''amount'', Num (parseFloat eng (to_string (flag_value cl ''amount'')))),
                         (''shipping'',
                            Num (parseFloat eng (to_string (flag_value cl ''shipping'')))),
                         (''sales_tax'',
                            Num (parseFloat eng (to_string (flag_value cl ''salesTax''))))]))]
      | ValidateAddress \<Rightarrow>
          [request_of c key ''post'' ''/addresses/validate'' None
             (Some (Obj [(''country'', flag_value cl ''country'')]))]
      | ValidateVat \<Rightarrow>
          [request_of c key ''get'' ''/validation''
             (Some (Obj [(''vat'', operand cl)])) None]) \<and>
     (\<forall>k \<in> set (required_attributes (inv_command cl)). \<exists>v. flag_value cl k = Str v) \<and>
     (arguments (inv_command cl) \<noteq> [] \<longrightarrow> (\<exists>x. operand cl = Str x))"
proof -
  note parsed = parse_options_ok [OF given nojson args]
  note sent = run_requests [OF parsed, of eng c net]
  note api = api_call_requests [OF key]
  have start: "requests io0 = []" by (simp add: io0_def)
  have req: "requests (final_io (run eng c net cl)) =
     (case inv_command cl of
        ConfigSet \<Rightarrow> []
      | ConfigShow \<Rightarrow> []
      | TaxCalculate \<Rightarrow>
          [request_of c key ''post'' ''/taxes'' None
             (Some (Obj [(''from_country'', flag_value cl ''fromCountry''),
                         (''from_zip'', flag_value cl ''fromZip''),
                         (''from_state'', flag_value cl ''fromState''),
                         (''to_country'', flag_value cl ''toCountry''),
                         (''to_zip'', flag_value cl ''toZip''),
                         (''to_state'', flag_value cl ''toState''),
                         (''amount'', Num (parseFloat eng (to_string (flag_value cl ''amount'')))),
                         (''shipping'', Num (Finite 0 0))]))]
      | RatesGet \<Rightarrow>
          [request_of c key ''get''
             (''/rates/'' @ encodeURIComponent (to_string (flag_value cl ''zip'')))
             (Some (Obj [(''country'', Str ''US'')])) None]
      | RatesSummary \<Rightarrow> [request_of c key ''get'' ''/summary_rates'' None None]
      | NexusList \<Rightarrow> [request_of c key ''get'' ''/nexus/regions'' None None]
      | CategoriesList \<Rightarrow> [request_of c key ''get'' ''/categories'' None None]
      | OrdersList \<Rightarrow> [request_of c key ''get'' ''/transactions/orders'' (Some (Obj [])) None]
      | OrdersGet \<Rightarrow>
          [request_of c key ''get''
             (''/transactions/orders/'' @ encodeURIComponent (to_string (operand cl)))
             None None]
      | OrdersCreate \<Rightarrow>
          [request_of c key ''post'' ''/transactions/orders'' None
             (Some (Obj [(''transaction_id'', flag_value cl ''transactionId''),
                         (''transaction_date'', flag_value cl ''transactionDate''),
                         (''to_country'', flag_value cl ''toCountry''),
                         (''to_zip'', flag_value cl ''toZip''),
                         (''to_state'', flag_value cl ''toState''),
                         (''amount'', Num (parseFloat eng (to_string (flag_value cl ''amount'')))),
                         (''shipping'',
                            Num (parseFloat eng (to_string (flag_value cl ''shipping'')))),
                         (''sales_tax'',
                            Num (parseFloat eng (to_string (flag_value cl ''salesTax''))))]))]
      | OrdersUpdate \<Rightarrow>
          [request_of c key ''put''
             (''/transactions/orders/'' @ encodeURIComponent (to_string (operand cl)))
             None (Some (Obj [(''transaction_id'', operand cl)]))]
      | OrdersDelete \<Rightarrow>
          [request_of c key ''delete''
             (''/transactions/orders/'' @ encodeURIComponent (to_string (operand cl)))
             None None]
      | RefundsList \<Rightarrow> [request_of c key ''get'' ''/transactions/refunds'' (Some (Obj [])) None]
      | RefundsGet \<Rightarrow>
          [request_of c key ''get''
             (''/transactions/refunds/'' @ encodeURIComponent (to_string (operand cl)))
             None None]
      | RefundsCreate \<Rightarrow>
          [request_of c key ''post'' ''/transactions/refunds'' None
             (Some (Obj [(''transaction_id'', flag_value cl ''transactionId''),
                         (''transaction_date'', flag_value cl ''transactionDate''),
                         (''transaction_reference_id'',
                            flag_value cl ''transactionReferenceId''),
                         (''to_country'', flag_value cl ''toCountry''),
                         (''to_zip'', flag_value cl ''toZip''),
                         (''to_state'', flag_value cl ''toState''),
                         (''amount'', Num (parseFloat eng (to_string (flag_value cl ''amount'')))),
                         (''shipping'',
                            Num (parseFloat eng (to_string (flag_value cl ''shipping'')))),
                         (''sales_tax'',
                            Num (parseFloat eng (to_string (flag_value cl ''salesTax''))))]))]
      | ValidateAddress \<Rightarrow>
          [request_of c key ''post'' ''/addresses/validate'' None
             (Some (Obj [(''country'', flag_value cl ''country'')]))]
      | ValidateVat \<Rightarrow>
          [request_of c key ''get'' ''/validation''
             (Some (Obj [(''vat'', operand cl)])) None])"
  proof (cases "inv_command cl")
    case ConfigSet
    then show ?thesis by (simp add: sent start)
  next
    case ConfigShow
    then show ?thesis by (simp add: sent start)
  next
    case TaxCalculate
    then show ?thesis
      by (simp add: sent start action_requests api_defs api
          params_tax_calculate [OF TaxCalculate given]
          del: option_decls.simps)
  next
    case RatesGet
    then show ?thesis
      by (simp add: sent start action_requests api_defs api
          params_rates_get [OF RatesGet given]
          del: option_decls.simps)
  next
    case RatesSummary
    then show ?thesis by (simp add: sent start action_requests api_defs api)
  next
    case NexusList
    then show ?thesis by (simp add: sent start action_requests api_defs api)
  next
    case CategoriesList
    then show ?thesis by (simp add: sent start action_requests api_defs api)
  next
    case OrdersList
    then show ?thesis
      by (simp add: sent start action_requests api_defs api
          params_orders_list [OF OrdersList given]
          del: option_decls.simps)
  next
    case OrdersGet
    then show ?thesis by (simp add: sent start action_requests api_defs api)
  next
    case OrdersCreate
    then show ?thesis
      by (simp add: sent start action_requests api_defs api
          params_orders_create [OF OrdersCreate given]
          del: option_decls.simps)
  next
    case OrdersUpdate
    then show ?thesis
      by (simp add: sent start action_requests api_defs api
          params_orders_update [OF OrdersUpdate given]
          del: option_decls.simps)
  next
    case OrdersDelete
    then show ?thesis by (simp add: sent start action_requests api_defs api)
  next
    case RefundsList
    then show ?thesis
      by (simp add: sent start action_requests api_defs api
          params_refunds_list [OF RefundsList given]
          del: option_decls.simps)
  next
    case RefundsGet
    then show ?thesis by (simp add: sent start action_requests api_defs api)
  next
    case RefundsCreate
    then show ?thesis
      by (simp add: sent start action_requests api_defs api params_refunds_create
          del: option_decls.simps)
  next
    case ValidateAddress
    then show ?thesis
      by (simp add: sent start action_requests api_defs api
          params_validate_address [OF ValidateAddress given]
          del: option_decls.simps)
  next
    case ValidateVat
    then show ?thesis by (simp add: sent start action_requests api_defs api)
  qed
  have flags: "\<forall>k \<in> set (required_attributes (inv_command cl)). \<exists>v. flag_value cl k = Str v"
    using given_flag [OF given] by blast
  have ops: "arguments (inv_command cl) \<noteq> [] \<longrightarrow> (\<exists>x. operand cl = Str x)"
  proof
    assume "arguments (inv_command cl) \<noteq> []"
    then obtain n where "length (arguments (inv_command cl)) = Suc n"
      by (cases "arguments (inv_command cl)") simp_all
    with args have "length (inv_operands cl) = Suc n" by simp
    then show "\<exists>x. operand cl = Str x" by (rule operand_given)
  qed
  from req flags ops show ?thesis by blast
qed


text \<open>
  C2 (as amended). With an API key configured, an invocation that gives a value to every
  required flag of its command, gives no optional flag (so no \<open>--json\<close> either) and has
  its positional argument makes one request for every command that calls the service,
  and none for \<open>config set\<close> and \<open>config show\<close>. The body or query of that request holds
  the fields of the required flags and arguments, and besides them the declared defaults
  of two optional flags: \<open>shipping: 0\<close> in \<open>tax calculate\<close> (from \<open>--shipping\<close>, default
  \<open>'0'\<close>) and \<open>country: 'US'\<close> in \<open>rates get\<close> (from \<open>--country\<close>, default \<open>'US'\<close>). No
  other optional field appears, and every field of a required flag is the text that was
  given, never a placeholder.
\<close>

theorem required_flags_request:
  assumes key: "getApiKey c io0 = (Normal key, io0)"
    and given: "set (map fst (inv_supplied cl)) = set (required_attributes (inv_command cl))"
    and nojson: "\<not> inv_json cl"
    and args: "length (inv_operands cl) = length (arguments (inv_command cl))"
  shows "requests (final_io (run eng c net cl)) =
     (case inv_command cl of
        ConfigSet \<Rightarrow> []
      | ConfigShow \<Rightarrow> []
      | TaxCalculate \<Rightarrow>
          [request_of c key ''post'' ''/taxes'' None
             (Some (Obj [(''from_country'', flag_value cl ''fromCountry''),
                         (''from_zip'', flag_value cl ''fromZip''),
                         (''from_state'', flag_value cl ''fromState''),
                         (''to_country'', flag_value cl ''toCountry''),
                         (''to_zip'', flag_value cl ''toZip''),
                         (''to_state'', flag_value cl ''toState''),
                         (''amount'', Num (parseFloat eng (to_string (flag_value cl ''amount'')))),
                         (''shipping'', Num (Finite 0 0))]))]
      | RatesGet \<Rightarrow>
          [request_of c key ''get''
             (''/rates/'' @ encodeURIComponent (to_string (flag_value cl ''zip'')))
             (Some (Obj [(''country'', Str ''US'')])) None]
      | RatesSummary \<Rightarrow> [request_of c key ''get'' ''/summary_rates'' None None]
      | NexusList \<Rightarrow> [request_of c key ''get'' ''/nexus/regions'' None None]
      | CategoriesList \<Rightarrow> [request_of c key ''get'' ''/categories'' None None]
      | OrdersList \<Rightarrow> [request_of c key ''get'' ''/transactions/orders'' (Some (Obj [])) None]
      | OrdersGet \<Rightarrow>
          [request_of c key ''get''
             (''/transactions/orders/'' @ encodeURIComponent (to_string (operand cl)))
             None None]
      | OrdersCreate \<Rightarrow>
          [request_of c key ''post'' ''/transactions/orders'' None
             (Some (Obj [(''transaction_id'', flag_value cl ''transactionId''),
                         (''transaction_date'', flag_value cl ''transactionDate''),
                         (''to_country'', flag_value cl ''toCountry''),
                         (''to_zip'', flag_value cl ''toZip''),
                         (''to_state'', flag_value cl ''toState''),
                         (''amount'', Num (parseFloat eng (to_string (flag_value cl ''amount'')))),
                         (''shipping'',
                            Num (parseFloat eng (to_string (flag_value cl ''shipping'')))),
                         (''sales_tax'',
                            Num (parseFloat eng (to_string (flag_value cl ''salesTax''))))]))]
      | OrdersUpdate \<Rightarrow>
          [request_of c key ''put''
             (''/transactions/orders/'' @ encodeURIComponent (to_string (operand cl)))
             None (Some (Obj [(''transaction_id'', operand cl)]))]
      | OrdersDelete \<Rightarrow>
          [request_of c key ''delete''
             (''/transactions/orders/'' @ encodeURIComponent (to_string (operand cl)))
             None None]
      | RefundsList \<Rightarrow> [request_of c key ''get'' ''/transactions/refunds'' (Some (Obj [])) None]
      | RefundsGet \<Rightarrow>
          [request_of c key ''get''
             (''/transactions/refunds/'' @ encodeURIComponent (to_string (operand cl)))
             None None]
      | RefundsCreate \<Rightarrow>
          [request_of c key ''post'' ''/transactions/refunds'' None
             (Some (Obj [(''transaction_id'', flag_value cl ''transactionId''),
                         (''transaction_date'', flag_value cl ''transactionDate''),
                         (''transaction_reference_id'',
                            flag_value cl ''transactionReferenceId''),
                         (''to_country'', flag_value cl ''toCountry''),
                         (''to_zip'', flag_value cl ''toZip''),
                         (''to_state'', flag_value cl ''toState''),
                         (''amount'', Num (parseFloat eng (to_string (flag_value cl ''amount'')))),
                         (''shipping'',
                            Num (parseFloat eng (to_string (flag_value cl ''shipping'')))),
                         (''sales_tax'',
                            Num (parseFloat eng (to_string (flag_value cl ''salesTax''))))]))]
      | ValidateAddress \<Rightarrow>
          [request_of c key ''post'' ''/addresses/validate'' None
             (Some (Obj [(''country'', flag_value cl ''country'')]))]
      | ValidateVat \<Rightarrow>
          [request_of c key ''get'' ''/validation''
             (Some (Obj [(''vat'', operand cl)])) None]) \<and>
     (\<forall>k \<in> set (required_attributes (inv_command cl)). \<exists>v. flag_value cl k = Str v) \<and>
     (arguments (inv_command cl) \<noteq> [] \<longrightarrow> (\<exists>x. operand cl = Str x))"
  using assms by (rule run_required_flags)

lemma parseFloat_100: "parseFloat eng ''100.00'' = Finite 100 0"
  by (simp add: js_eval)

text \<open>An instance: \<open>tax calculate\<close> with its seven required flags.\<close>

theorem required_flags_request_witness:
  "requests (final_io (run \<lparr>percent4 = (\<lambda>v. []), string_to_number = (\<lambda>s. NaN),
      decimal_to_double = (\<lambda>neg m e. NaN)\<rparr>
     \<lparr>TAXJAR_API_KEY = Some ''env-key-0001'', TAXJAR_BASE_URL = None,
      stored_apiKey = None, stored_baseUrl = None, config_path = ''config.json''\<rparr>
     (\<lambda>r. Responded 200 (Obj [(''tax'', Obj [(''amount_to_collect'', Num (Finite 888 2))])]))
     \<lparr>inv_command = TaxCalculate, inv_operands = [],
      inv_supplied = [(''fromCountry'', ''US''), (''fromZip'', ''94025''),
                      (''fromState'', ''CA''), (''toCountry'', ''US''),
                      (''toZip'', ''10001''), (''toState'', ''NY''),
                      (''amount'', ''100.00'')],
      inv_json = False\<rparr>)) =
   [\<lparr>req_baseURL = ''https://api.taxjar.com/v2'',
     req_authorization = ''Bearer env-key-0001'',
     req_content_type = ''application/json'', req_timeout = 30000,
     req_method = ''post'', req_url = ''/taxes'', req_params = None,
     req_data = Some (Obj [(''from_country'', Str ''US''), (''from_zip'', Str ''94025''),
                           (''from_state'', Str ''CA''), (''to_country'', Str ''US''),
                           (''to_zip'', Str ''10001''), (''to_state'', Str ''NY''),
                           (''amount'', Num (Finite 100 0)),
                           (''shipping'', Num (Finite 0 0))])\<rparr>]"
proof -
  have key: "getApiKey \<lparr>TAXJAR_API_KEY = Some ''env-key-0001'', TAXJAR_BASE_URL = None,
      stored_apiKey = None, stored_baseUrl = None, config_path = ''config.json''\<rparr> io0 =
      (Normal ''env-key-0001'', io0)"
    by (simp add: getApiKey_def or_else_def)
  show ?thesis
    using required_flags_request [OF key,
        of "\<lparr>inv_command = TaxCalculate, inv_operands = [],
      inv_supplied = [(''fromCountry'', ''US''), (''fromZip'', ''94025''),
                      (''fromState'', ''CA''), (''toCountry'', ''US''),
                      (''toZip'', ''10001''), (''toState'', ''NY''),
                      (''amount'', ''100.00'')],
      inv_json = False\<rparr>"
        "\<lparr>percent4 = (\<lambda>v. []), string_to_number = (\<lambda>s. NaN),
      decimal_to_double = (\<lambda>neg m e. NaN)\<rparr>"
        "\<lambda>r. Responded 200 (Obj [(''tax'', Obj [(''amount_to_collect'', Num (Finite 888 2))])])"]
    by (simp add: required_attributes_def flag_value_def request_of_def getBaseUrl_def
        or_else_def config_get_baseUrl_def parseFloat_100)
qed

text \<open>In that same invocation \<open>--shipping\<close>, an optional flag, is not given, and the body
  has a \<open>shipping\<close> field all the same; and \<open>config show\<close> makes no request at all.\<close>

theorem required_flags_request_counterexample:
  "''shipping'' \<in> set (optional_attributes TaxCalculate) \<and>
   ''shipping'' \<notin> set (map fst [(''fromCountry'', ''US''), (''fromZip'', ''94025''),
                      (''fromState'', ''CA''), (''toCountry'', ''US''),
                      (''toZip'', ''10001''), (''toState'', ''NY''),
                      (''amount'', ''100.00'')]) \<and>
   map req_data (requests (final_io (run \<lparr>percent4 = (\<lambda>v. []), string_to_number = (\<lambda>s. NaN),
      decimal_to_double = (\<lambda>neg m e. NaN)\<rparr>
     \<lparr>TAXJAR_API_KEY = Some ''env-key-0001'', TAXJAR_BASE_URL = None,
      stored_apiKey = None, stored_baseUrl = None, config_path = ''config.json''\<rparr>
     (\<lambda>r. Responded 200 (Obj [(''tax'', Obj [(''amount_to_collect'', Num (Finite 888 2))])]))
     \<lparr>inv_command = TaxCalculate, inv_operands = [],
      inv_supplied = [(''fromCountry'', ''US''), (''fromZip'', ''94025''),
                      (''fromState'', ''CA''), (''toCountry'', ''US''),
                      (''toZip'', ''10001''), (''toState'', ''NY''),
                      (''amount'', ''100.00'')],
      inv_json = False\<rparr>))) =
   [Some (Obj [(''from_country'', Str ''US''), (''from_zip'', Str ''94025''),
               (''from_state'', Str ''CA''), (''to_country'', Str ''US''),
               (''to_zip'', Str ''10001''), (''to_state'', Str ''NY''),
               (''amount'', Num (Finite 100 0)),
               (''shipping'', Num (Finite 0 0))])] \<and>
   requests (final_io (run \<lparr>percent4 = (\<lambda>v. []), string_to_number = (\<lambda>s. NaN),
      decimal_to_double = (\<lambda>neg m e. NaN)\<rparr>
     \<lparr>TAXJAR_API_KEY = Some ''env-key-0001'', TAXJAR_BASE_URL = None,
      stored_apiKey = None, stored_baseUrl = None, config_path = ''config.json''\<rparr>
     (\<lambda>r. Responded 200 (Obj [(''tax'', Obj [(''amount_to_collect'', Num (Finite 888 2))])]))
     \<lparr>inv_command = ConfigShow, inv_operands = [], inv_supplied = [],
      inv_json = False\<rparr>)) = []"
proof -
  have key: "getApiKey \<lparr>TAXJAR_API_KEY = Some ''env-key-0001'', TAXJAR_BASE_URL = None,
      stored_apiKey = None, stored_baseUrl = None, config_path = ''config.json''\<rparr> io0 =
      (Normal ''env-key-0001'', io0)"
    by (simp add: getApiKey_def or_else_def)
  show ?thesis
    using run_required_flags [OF key,
        of "\<lparr>inv_command = TaxCalculate, inv_operands = [],
      inv_supplied = [(''fromCountry'', ''US''), (''fromZip'', ''94025''),
                      (''fromState'', ''CA''), (''toCountry'', ''US''),
                      (''toZip'', ''10001''), (''toState'', ''NY''),
                      (''amount'', ''100.00'')],
      inv_json = False\<rparr>"
        "\<lparr>percent4 = (\<lambda>v. []), string_to_number = (\<lambda>s. NaN),
      decimal_to_double = (\<lambda>neg m e. NaN)\<rparr>"
        "\<lambda>r. Responded 200 (Obj [(''tax'', Obj [(''amount_to_collect'', Num (Finite 888 2))])])"]
      run_required_flags [OF key,
        of "\<lparr>inv_command = ConfigShow, inv_operands = [], inv_supplied = [],
      inv_json = False\<rparr>"
        "\<lparr>percent4 = (\<lambda>v. []), string_to_number = (\<lambda>s. NaN),
      decimal_to_double = (\<lambda>neg m e. NaN)\<rparr>"
        "\<lambda>r. Responded 200 (Obj [(''tax'', Obj [(''amount_to_collect'', Num (Finite 888 2))])])"]
    by (simp add: required_attributes_def optional_attributes_def flag_value_def request_of_def
        parseFloat_100)
qed

subsection \<open>What is printed\<close>

lemma log_lines_Inr: "log_lines (map Inr ls) w = (Normal (), w\<lparr>stdout := stdout w @ ls\<rparr>)"
proof (induction ls arbitrary: w)
  case Nil
  show ?case by simp
next
  case (Cons l ls)
  show ?case by (simp add: Cons.IH console_log_def)
qed

lemma all_Inr_map: "\<forall>l \<in> set xs. \<not> isl l \<Longrightarrow> map Inr (map projr xs) = xs"
  by (induction xs) (auto simp: isl_def)

lemma log_lines_all_Inr:
  assumes "\<forall>l \<in> set xs. \<not> isl l"
  shows "log_lines xs w = (Normal (), w\<lparr>stdout := stdout w @ map projr xs\<rparr>)"
  using log_lines_Inr [of "map projr xs" w] all_Inr_map [OF assms] by simp

lemma truthy_not_nullish: "truthy v \<Longrightarrow> \<not> nullish v"
  by (auto simp: nullish_def)

lemma field_nullish: "nullish v \<Longrightarrow> field v k = Undefined"
  by (auto simp: nullish_def field_def)

lemma read_prop_ok: "\<not> nullish v \<Longrightarrow> read_prop v k = Inr (field v k)"
  by (simp add: read_prop_def)

lemma line_of_ok: "\<not> nullish v \<Longrightarrow> line_of v k f = [Inr (f (field v k))]"
  by (simp add: line_of_def read_prop_ok)

lemma block_if_ok:
  "\<not> nullish v \<Longrightarrow> block_if v k body = (if truthy (field v k) then body (field v k) else [])"
  by (simp add: block_if_def read_prop_ok)

lemma line_if_ok:
  "\<not> nullish v \<Longrightarrow> line_if v k f = (if truthy (field v k) then [Inr (f (field v k))] else [])"
  by (simp add: line_if_def block_if_ok)

lemma line_if_Inr: "\<not> nullish v \<Longrightarrow> \<forall>l \<in> set (line_if v k f). \<not> isl l"
  by (simp add: line_if_ok)

lemma tax_calculate_lines_Inr:
  assumes "\<not> nullish result"
  shows "\<forall>l \<in> set (tax_calculate_lines eng options result). \<not> isl l"
proof -
  have breakdown: "\<forall>l \<in> set (line_if b k f). \<not> isl l" if "truthy b" for b k f
    using that by (intro line_if_Inr truthy_not_nullish)
  show ?thesis
    using assms
    by (auto simp add: tax_calculate_lines_def line_def line_of_ok block_if_ok
        dest: breakdown [THEN bspec])
qed

lemma tax_to_collect_line:
  assumes "\<not> nullish result"
  shows "Inr (''Tax to Collect:     '' @ ''$'' @ to_string (field result ''amount_to_collect''))
           \<in> set (tax_calculate_lines eng options result)"
  using assms by (simp add: tax_calculate_lines_def line_def line_of_ok)

lemma number_888: "number_to_string (Finite 888 2) = ''8.88''"
  by (simp add: js_eval)

lemma opt_build_options_json:
  assumes "distinct (map attribute decls)"
  shows "opt (build_options decls supplied js) k =
     (case find (\<lambda>d. attribute d = k) decls of
        Some d \<Rightarrow>
          (case map_of supplied k of
             Some v \<Rightarrow> Str v
           | None \<Rightarrow> (case default_value d of
                        Some v \<Rightarrow> Str v
                      | None \<Rightarrow> if js \<and> k = ''json'' then Bool True else Undefined))
      | None \<Rightarrow> if js \<and> k = ''json'' then Bool True else Undefined)"
  using map_of_entries [OF assms, of supplied "if js then [(''json'', Bool True)] else []" k]
  by (simp add: opt_def field_def build_options_def split: option.splits)

lemma parse_options_valid:
  assumes req: "set (required_attributes (inv_command cl)) \<subseteq> set (map fst (inv_supplied cl))"
    and known: "set (map fst (inv_supplied cl))
                  \<subseteq> set (map attribute (option_decls (inv_command cl)))"
    and json: "inv_json cl \<longrightarrow> accepts_json (inv_command cl)"
    and args: "length (arguments (inv_command cl)) \<le> length (inv_operands cl)"
  shows "parse_options cl =
         Inr (build_options (option_decls (inv_command cl)) (inv_supplied cl) (inv_json cl))"
proof -
  have given: "map_of (inv_supplied cl) (attribute d) \<noteq> None"
    if "d \<in> set (option_decls (inv_command cl))" and "mandatory d" for d
  proof -
    from that have "attribute d \<in> set (required_attributes (inv_command cl))"
      by (auto simp: required_attributes_def)
    with req have "attribute d \<in> fst ` set (inv_supplied cl)" by auto
    then show ?thesis by (simp add: map_of_eq_None_iff)
  qed
  then have none: "find (\<lambda>d. mandatory d \<and> map_of (inv_supplied cl) (attribute d) = None)
                    (option_decls (inv_command cl)) = None"
    by (auto simp: find_None_iff)
  show ?thesis
    using none known json args by (auto simp: parse_options_def Let_def)
qed

lemma flag_value_Str: "flag_value cl k = Str v \<Longrightarrow> map_of (inv_supplied cl) k = Some v"
  by (simp add: flag_value_def split: option.splits)

lemma not_supplied: "k \<notin> set (map fst (inv_supplied cl)) \<Longrightarrow> map_of (inv_supplied cl) k = None"
  by (simp add: map_of_eq_None_iff)

lemma parseFloat_5: "parseFloat eng ''5.00'' = Finite 5 0"
  by (simp add: js_eval)

lemma scenario_A_params:
  assumes flags: "set (map fst (inv_supplied cl)) =
        {''fromCountry'', ''fromZip'', ''fromState'', ''toCountry'', ''toZip'', ''toState'',
         ''amount'', ''shipping''}"
    and "flag_value cl ''fromZip'' = Str ''94025''"
    and "flag_value cl ''fromState'' = Str ''CA''"
    and "flag_value cl ''toZip'' = Str ''10001''"
    and "flag_value cl ''toState'' = Str ''NY''"
    and "flag_value cl ''amount'' = Str ''100.00''"
    and "flag_value cl ''shipping'' = Str ''5.00''"
  shows "tax_calculate_params eng
           (build_options (option_decls TaxCalculate) (inv_supplied cl) False) =
     Obj [(''from_country'', flag_value cl ''fromCountry''),
          (''from_zip'', Str ''94025''),
          (''from_state'', Str ''CA''),
          (''to_country'', flag_value cl ''toCountry''),
          (''to_zip'', Str ''10001''),
          (''to_state'', Str ''NY''),
          (''amount'', Num (Finite 100 0)),
          (''shipping'', Num (Finite 5 0))]"
    and "opt (build_options (option_decls TaxCalculate) (inv_supplied cl) False) ''json''
           = Undefined"
proof -
  have absent: "map_of (inv_supplied cl) k = None"
    if "k \<in> {''fromCity'', ''fromStreet'', ''toCity'', ''toStreet''}" for k
  proof (rule not_supplied)
    show "k \<notin> set (map fst (inv_supplied cl))"
      unfolding flags using that by auto
  qed
  note given = assms(2-7) [THEN flag_value_Str]
  show "tax_calculate_params eng
           (build_options (option_decls TaxCalculate) (inv_supplied cl) False) =
     Obj [(''from_country'', flag_value cl ''fromCountry''),
          (''from_zip'', Str ''94025''),
          (''from_state'', Str ''CA''),
          (''to_country'', flag_value cl ''toCountry''),
          (''to_zip'', Str ''10001''),
          (''to_state'', Str ''NY''),
          (''amount'', Num (Finite 100 0)),
          (''shipping'', Num (Finite 5 0))]"
    by (simp add: tax_calculate_params_def number_param_def optional_param_def
        opt_build_options absent given flag_value_def parseFloat_100 parseFloat_5
        cong: option.case_cong)
  show "opt (build_options (option_decls TaxCalculate) (inv_supplied cl) False) ''json''
           = Undefined"
    by (simp add: opt_build_options)
qed

subsection \<open>Scenario A\<close>

lemma api_call_success:
  assumes "getApiKey c w0 = (Normal key, w0)"
    and "net (request_of c key mth u ps d) = Responded status body"
    and "200 \<le> status" and "status < 300" and "\<not> nullish body"
  shows "api_call c net mth u ps d f w =
         (Normal (field body f), w\<lparr>requests := requests w @ [request_of c key mth u ps d]\<rparr>)"
  using assms(2-5) by (simp add: api_call_with_key [OF assms(1)] read_prop_ok)

lemma tax_calculate_human:
  assumes key: "getApiKey c w0 = (Normal key, w0)"
    and net: "net (request_of c key ''post'' ''/taxes'' None
                     (Some (tax_calculate_params eng options))) = Responded status body"
    and ok: "200 \<le> status" "status < 300"
    and body: "\<not> nullish body" and tax: "\<not> nullish (field body ''tax'')"
    and human: "\<not> truthy (opt options ''json'')"
  shows "tax_calculate eng c net options w =
     (Normal (),
      w\<lparr>stdout := stdout w @ map projr (tax_calculate_lines eng options (field body ''tax'')),
        spinner := spinner w @ [SpinStart ''Calculating tax...'', SpinSucceed ''Tax calculated''],
        requests := requests w @ [request_of c key ''post'' ''/taxes'' None
                                    (Some (tax_calculate_params eng options))]\<rparr>)"
  by (simp add: tax_calculate_def try_catch_def then_do_def calculateTax_def
      api_call_success [where net = net, OF key net ok body] human
      log_lines_all_Inr [OF tax_calculate_lines_Inr [OF tax]] spin_def)


lemma run_scenario_A:
  assumes key: "getApiKey c io0 = (Normal key, io0)"
    and cmd: "inv_command cl = TaxCalculate"
    and flags: "set (map fst (inv_supplied cl)) =
        {''fromCountry'', ''fromZip'', ''fromState'', ''toCountry'', ''toZip'', ''toState'',
         ''amount'', ''shipping''}"
    and from_zip: "flag_value cl ''fromZip'' = Str ''94025''"
    and from_state: "flag_value cl ''fromState'' = Str ''CA''"
    and to_zip: "flag_value cl ''toZip'' = Str ''10001''"
    and to_state: "flag_value cl ''toState'' = Str ''NY''"
    and amount: "flag_value cl ''amount'' = Str ''100.00''"
    and shipping: "flag_value cl ''shipping'' = Str ''5.00''"
    and human: "\<not> inv_json cl"
    and net: "net (request_of c key ''post'' ''/taxes'' None
                (Some (Obj [(''from_country'', flag_value cl ''fromCountry''),
                        (''from_zip'', Str ''94025''),
                        (''from_state'', Str ''CA''),
                        (''to_country'', flag_value cl ''toCountry''),
                        (''to_zip'', Str ''10001''),
                        (''to_state'', Str ''NY''),
                        (''amount'', Num (Finite 100 0)),
                        (''shipping'', Num (Finite 5 0))]))) =
              Responded status body"
    and ok: "200 \<le> status" "status < 300"
    and tax: "field (field body ''tax'') ''amount_to_collect'' = Num (Finite 888 2)"
  shows "requests (final_io (run eng c net cl)) =
           [request_of c key ''post'' ''/taxes'' None
              (Some (Obj [(''from_country'', flag_value cl ''fromCountry''),
                        (''from_zip'', Str ''94025''),
                        (''from_state'', Str ''CA''),
                        (''to_country'', flag_value cl ''toCountry''),
                        (''to_zip'', Str ''10001''),
                        (''to_state'', Str ''NY''),
                        (''amount'', Num (Finite 100 0)),
                        (''shipping'', Num (Finite 5 0))]))] \<and>
         exit_code (run eng c net cl) = 0 \<and>
         stderr (final_io (run eng c net cl)) = [] \<and>
         ''Tax to Collect:     $8.88'' \<in> set (stdout (final_io (run eng c net cl))) \<and>
         (\<exists>l \<in> set (stdout (final_io (run eng c net cl))). sublist ''$8.88'' l)"
proof -
  let ?options = "build_options (option_decls TaxCalculate) (inv_supplied cl) False"
  have nt: "\<not> nullish (field body ''tax'')"
    using tax field_nullish [of "field body ''tax''" "''amount_to_collect''"] by auto
  have nb: "\<not> nullish body"
    using nt field_nullish [of body "''tax''"] by (auto simp: nullish_def)
  have parsed: "parse_options cl = Inr ?options"
    using parse_options_valid [of cl] flags human
    by (simp add: cmd required_attributes_def)
  note params = scenario_A_params [OF flags from_zip from_state to_zip to_state amount shipping]
  have net': "net (request_of c key ''post'' ''/taxes'' None
                (Some (tax_calculate_params eng ?options))) = Responded status body"
    using net by (simp only: params(1))
  have nojson: "\<not> truthy (opt ?options ''json'')"
    by (simp only: params(2)) simp
  have act: "tax_calculate eng c net ?options io0 =
     (Normal (),
      io0\<lparr>stdout := stdout io0
                 @ map projr (tax_calculate_lines eng ?options (field body ''tax'')),
          spinner := spinner io0
                 @ [SpinStart ''Calculating tax...'', SpinSucceed ''Tax calculated''],
          requests := requests io0 @ [request_of c key ''post'' ''/taxes'' None
                                        (Some (tax_calculate_params eng ?options))]\<rparr>)"
    by (rule tax_calculate_human [where net = net, OF key net' ok nb nt nojson])
  have run: "run eng c net cl =
     \<lparr>exit_code = 0,
      final_io = io0\<lparr>stdout := stdout io0
                 @ map projr (tax_calculate_lines eng ?options (field body ''tax'')),
          spinner := spinner io0
                 @ [SpinStart ''Calculating tax...'', SpinSucceed ''Tax calculated''],
          requests := requests io0 @ [request_of c key ''post'' ''/taxes'' None
                                        (Some (tax_calculate_params eng ?options))]\<rparr>,
      final_config = c\<rparr>"
    by (simp add: run_def parsed cmd act del: option_decls.simps)
  have ts: "to_string (field (field body ''tax'') ''amount_to_collect'') = ''8.88''"
    by (simp add: tax js_eval)
  have "Inr ''Tax to Collect:     $8.88''
        \<in> set (tax_calculate_lines eng ?options (field body ''tax''))"
    using tax_to_collect_line [OF nt, of eng ?options] unfolding ts
    by (simp del: option_decls.simps)
  then have "projr (Inr ''Tax to Collect:     $8.88'' :: js_error + string)
        \<in> projr ` set (tax_calculate_lines eng ?options (field body ''tax''))"
    by (rule imageI)
  then have line: "''Tax to Collect:     $8.88''
        \<in> set (map projr (tax_calculate_lines eng ?options (field body ''tax'')))"
    by simp
  have "sublist ''$8.88'' (''Tax to Collect:     '' @ ''$8.88'' @ [])"
    by (rule sublist_appendI)
  then have sub: "sublist ''$8.88'' ''Tax to Collect:     $8.88''" by simp
  show ?thesis
    using line sub by (auto simp: run params(1) io0_def simp del: option_decls.simps)
qed


text \<open>
  C6. \<open>tax calculate\<close> with origin ZIP 94025 and state CA, destination ZIP 10001 and state
  NY, amount \<open>100.00\<close> and shipping \<open>5.00\<close> (the two country flags, which the command
  requires, with any values; no other flag; human mode) and an API key configured makes one
  request: a POST to \<open>/taxes\<close> whose body has \<open>from_zip "94025"\<close>, \<open>from_state "CA"\<close>,
  \<open>to_zip "10001"\<close>, \<open>to_state "NY"\<close> and the numbers \<open>amount 100\<close> and \<open>shipping 5\<close>. When
  the service answers it with a success status and a \<open>tax\<close> object whose
  \<open>amount_to_collect\<close> is 8.88, the process ends with status 0, writes nothing to standard
  error, and prints the line \<open>Tax to Collect:     $8.88\<close>: the output contains \<open>$8.88\<close>.
\<close>

theorem tax_calculate_scenario_A:
  assumes key: "getApiKey c io0 = (Normal key, io0)"
    and cmd: "inv_command cl = TaxCalculate"
    and flags: "set (map fst (inv_supplied cl)) =
        {''fromCountry'', ''fromZip'', ''fromState'', ''toCountry'', ''toZip'', ''toState'',
         ''amount'', ''shipping''}"
    and from_zip: "flag_value cl ''fromZip'' = Str ''94025''"
    and from_state: "flag_value cl ''fromState'' = Str ''CA''"
    and to_zip: "flag_value cl ''toZip'' = Str ''10001''"
    and to_state: "flag_value cl ''toState'' = Str ''NY''"
    and amount: "flag_value cl ''amount'' = Str ''100.00''"
    and shipping: "flag_value cl ''shipping'' = Str ''5.00''"
    and human: "\<not> inv_json cl"
    and net: "net (request_of c key ''post'' ''/taxes'' None
                (Some (Obj [(''from_country'', flag_value cl ''fromCountry''),
                        (''from_zip'', Str ''94025''),
                        (''from_state'', Str ''CA''),
                        (''to_country'', flag_value cl ''toCountry''),
                        (''to_zip'', Str ''10001''),
                        (''to_state'', Str ''NY''),
                        (''amount'', Num (Finite 100 0)),
                        (''shipping'', Num (Finite 5 0))]))) =
              Responded status body"
    and ok: "200 \<le> status" "status < 300"
    and tax: "field (field body ''tax'') ''amount_to_collect'' = Num (Finite 888 2)"
  shows "requests (final_io (run eng c net cl)) =
           [request_of c key ''post'' ''/taxes'' None
              (Some (Obj [(''from_country'', flag_value cl ''fromCountry''),
                        (''from_zip'', Str ''94025''),
                        (''from_state'', Str ''CA''),
                        (''to_country'', flag_value cl ''toCountry''),
                        (''to_zip'', Str ''10001''),
                        (''to_state'', Str ''NY''),
                        (''amount'', Num (Finite 100 0)),
                        (''shipping'', Num (Finite 5 0))]))] \<and>
         exit_code (run eng c net cl) = 0 \<and>
         stderr (final_io (run eng c net cl)) = [] \<and>
         ''Tax to Collect:     $8.88'' \<in> set (stdout (final_io (run eng c net cl))) \<and>
         (\<exists>l \<in> set (stdout (final_io (run eng c net cl))). sublist ''$8.88'' l)"
  using assms by (rule run_scenario_A)

text \<open>An instance, with both countries \<open>US\<close> and a response that carries a rate as well.\<close>

theorem tax_calculate_scenario_A_witness:
  "requests (final_io (run \<lparr>percent4 = (\<lambda>v. []), string_to_number = (\<lambda>s. NaN),
      decimal_to_double = (\<lambda>neg m e. NaN)\<rparr>
     \<lparr>TAXJAR_API_KEY = Some ''env-key-0001'', TAXJAR_BASE_URL = None,
      stored_apiKey = None, stored_baseUrl = None, config_path = ''config.json''\<rparr>
     (\<lambda>r. Responded 200
        (Obj [(''tax'', Obj [(''amount_to_collect'', Num (Finite 888 2)),
                             (''rate'', Num (Finite 8875 5))])]))
     \<lparr>inv_command = TaxCalculate, inv_operands = [],
      inv_supplied = [(''fromCountry'', ''US''), (''fromZip'', ''94025''),
                      (''fromState'', ''CA''), (''toCountry'', ''US''),
                      (''toZip'', ''10001''), (''toState'', ''NY''),
                      (''amount'', ''100.00''), (''shipping'', ''5.00'')],
      inv_json = False\<rparr>)) =
   [\<lparr>req_baseURL = ''https://api.taxjar.com/v2'',
     req_authorization = ''Bearer env-key-0001'',
     req_content_type = ''application/json'', req_timeout = 30000,
     req_method = ''post'', req_url = ''/taxes'', req_params = None,
     req_data = Some (Obj [(''from_country'', Str ''US''), (''from_zip'', Str ''94025''),
                           (''from_state'', Str ''CA''), (''to_country'', Str ''US''),
                           (''to_zip'', Str ''10001''), (''to_state'', Str ''NY''),
                           (''amount'', Num (Finite 100 0)),
                           (''shipping'', Num (Finite 5 0))])\<rparr>] \<and>
   ''Tax to Collect:     $8.88'' \<in> set (stdout (final_io
     (run \<lparr>percent4 = (\<lambda>v. []), string_to_number = (\<lambda>s. NaN),
      decimal_to_double = (\<lambda>neg m e. NaN)\<rparr>
     \<lparr>TAXJAR_API_KEY = Some ''env-key-0001'', TAXJAR_BASE_URL = None,
      stored_apiKey = None, stored_baseUrl = None, config_path = ''config.json''\<rparr>
     (\<lambda>r. Responded 200
        (Obj [(''tax'', Obj [(''amount_to_collect'', Num (Finite 888 2)),
                             (''rate'', Num (Finite 8875 5))])]))
     \<lparr>inv_command = TaxCalculate, inv_operands = [],
      inv_supplied = [(''fromCountry'', ''US''), (''fromZip'', ''94025''),
                      (''fromState'', ''CA''), (''toCountry'', ''US''),
                      (''toZip'', ''10001''), (''toState'', ''NY''),
                      (''amount'', ''100.00''), (''shipping'', ''5.00'')],
      inv_json = False\<rparr>)))"
proof -
  have key: "getApiKey \<lparr>TAXJAR_API_KEY = Some ''env-key-0001'', TAXJAR_BASE_URL = None,
      stored_apiKey = None, stored_baseUrl = None, config_path = ''config.json''\<rparr> io0 =
      (Normal ''env-key-0001'', io0)"
    by (simp add: getApiKey_def or_else_def)
  show ?thesis
    using tax_calculate_scenario_A [OF key,
        of "\<lparr>inv_command = TaxCalculate, inv_operands = [],
      inv_supplied = [(''fromCountry'', ''US''), (''fromZip'', ''94025''),
                      (''fromState'', ''CA''), (''toCountry'', ''US''),
                      (''toZip'', ''10001''), (''toState'', ''NY''),
                      (''amount'', ''100.00''), (''shipping'', ''5.00'')],
      inv_json = False\<rparr>"
        "\<lambda>r. Responded 200
        (Obj [(''tax'', Obj [(''amount_to_collect'', Num (Finite 888 2)),
                             (''rate'', Num (Finite 8875 5))])])"
        200
        "Obj [(''tax'', Obj [(''amount_to_collect'', Num (Finite 888 2)),
                             (''rate'', Num (Finite 8875 5))])]"
        "\<lparr>percent4 = (\<lambda>v. []), string_to_number = (\<lambda>s. NaN),
      decimal_to_double = (\<lambda>neg m e. NaN)\<rparr>"]
    by (simp add: flag_value_def request_of_def getBaseUrl_def or_else_def
        config_get_baseUrl_def field_def)
qed

subsection \<open>Empty lists\<close>

lemma to_string_zero: "to_string (Num (Finite 0 0)) = ''0''"
  by simp














subsection \<open>Tables\<close>

lemma join_two_more:
  assumes "xs \<noteq> []"
  shows "join sep (xs @ [a, b]) = join sep xs @ sep @ a @ sep @ b"
proof (cases xs)
  case Nil
  with assms show ?thesis by simp
next
  case (Cons y ys)
  then show ?thesis by (simp add: join_def)
qed

lemma widest_blank:
  assumes "\<forall>row \<in> set rows. cell row k = []"
  shows "foldl (\<lambda>width row. max width (length (cell row k))) n rows = n"
  using assms by (induction rows arbitrary: n) simp_all

lemma colWidth_blank:
  assumes "\<forall>row \<in> set rows. cell row k = []"
  shows "colWidth rows (k, label) = length label"
  using widest_blank [OF assms] by (simp add: colWidth_def)

lemma cell_absent:
  assumes "k \<notin> fst ` set kvs"
  shows "cell (Obj kvs) k = []"
proof -
  have "map_of kvs k = None"
    using assms by (simp add: map_of_eq_None_iff)
  then show ?thesis
    by (simp add: cell_def field_def coalesce_def nullish_def)
qed

lemma table_lines_blank_columns:
  assumes cols: "cols \<noteq> []"
    and a: "\<forall>row \<in> set rows. cell row ka = []"
    and b: "\<forall>row \<in> set rows. cell row kb = []"
  shows "table_lines rows (cols @ [(ka, la), (kb, lb)]) =
     map (\<lambda>(l, s). l @ s)
       (zip (table_lines rows cols)
          ((''  '' @ la @ ''  '' @ lb)
           # (''  '' @ replicate (length la) CHR ''-'' @ ''  '' @ replicate (length lb) CHR ''-'')
           # replicate (length rows)
               (''  '' @ replicate (length la) CHR '' '' @ ''  ''
                @ replicate (length lb) CHR '' '')))"
proof -
  have nonempty: "map f cols \<noteq> []" for f :: "string \<times> string \<Rightarrow> string"
    using cols by simp
  have rows: "map (\<lambda>row. g row @ t) rs = map (\<lambda>(l, s). l @ s) (zip (map g rs) (replicate (length rs) t))"
    for g :: "jsval \<Rightarrow> string" and t rs
    by (induction rs) simp_all
  have body: "map (\<lambda>row. join ''  ''
             (map (\<lambda>col. padEnd (cell row (fst col)) (colWidth rows col))
                (cols @ [(ka, la), (kb, lb)]))) rows =
        map (\<lambda>row. join ''  ''
             (map (\<lambda>col. padEnd (cell row (fst col)) (colWidth rows col)) cols)
             @ (''  '' @ replicate (length la) CHR '' '' @ ''  ''
                @ replicate (length lb) CHR '' '')) rows"
    using a b
    by (auto simp: join_two_more [OF nonempty] colWidth_blank [OF a] colWidth_blank [OF b]
        padEnd_def)
  have header: "join ''  '' (map (\<lambda>col. padEnd (snd col) (colWidth rows col))
                (cols @ [(ka, la), (kb, lb)])) =
        join ''  '' (map (\<lambda>col. padEnd (snd col) (colWidth rows col)) cols)
        @ (''  '' @ la @ ''  '' @ lb)"
    by (simp add: join_two_more [OF nonempty] colWidth_blank [OF a] colWidth_blank [OF b]
        padEnd_def)
  have rule: "join ''  '' (map (\<lambda>col. replicate (colWidth rows col) CHR ''-'')
                (cols @ [(ka, la), (kb, lb)])) =
        join ''  '' (map (\<lambda>col. replicate (colWidth rows col) CHR ''-'') cols)
        @ (''  '' @ replicate (length la) CHR ''-'' @ ''  '' @ replicate (length lb) CHR ''-'')"
    by (simp add: join_two_more [OF nonempty] colWidth_blank [OF a] colWidth_blank [OF b])
  show ?thesis
    unfolding table_lines_def header rule body rows
    by simp
qed

lemma printTable_rows:
  assumes "rows \<noteq> []" and "\<forall>row \<in> set rows. \<not> nullish row"
  shows "printTable (Arr rows) cols w =
         (Normal (), w\<lparr>stdout := stdout w @ table_lines rows cols\<rparr>)"
proof -
  have none: "find nullish rows = None"
    using assms(2) by (simp add: find_None_iff)
  show ?thesis
    using assms(1)
    by (simp add: printTable_def field_def none log_lines_Inr split: list.splits)
qed

lemma list_command_rows:
  assumes "fetch (spin (SpinStart st) w) = (Normal (Arr rows), w1)"
  shows "list_command st ft sx show fetch options w =
     try_catch ft
       (\<lambda>w'. if truthy (opt options ''json'') then printJson (Arr rows) w'
              else show (Arr rows) w')
       (spin (SpinSucceed (sx (to_string (Num (Finite (int (length rows)) 0))))) w1)"
  using assms
  by (simp add: list_command_def try_catch_def then_do_def read_prop_def nullish_def
      field_def del: to_string.simps)

lemma fetch_rows:
  assumes "getApiKey c w0 = (Normal key, w0)"
    and "net (request_of c key mth u ps d) = Responded status body"
    and "200 \<le> status" and "status < 300" and "field body f = Arr rows"
  shows "api_call c net mth u ps d f w =
         (Normal (Arr rows), w\<lparr>requests := requests w @ [request_of c key mth u ps d]\<rparr>)"
proof -
  have "\<not> nullish body"
    using assms(5) field_nullish [of body f] by auto
  from api_call_success [where net = net, OF assms(1-4) this, of f w] assms(5)
  show ?thesis by simp
qed

lemma rates_summary_table:
  assumes key: "getApiKey c w0 = (Normal key, w0)"
    and net: "net (request_of c key ''get'' ''/summary_rates'' None None) = Responded status body"
    and ok: "200 \<le> status" "status < 300"
    and rates: "field body ''summary_rates'' = Arr rows"
    and rows: "rows \<noteq> []" "\<forall>row \<in> set rows. \<not> nullish row"
    and human: "\<not> truthy (opt options ''json'')"
  shows "rates_summary c net options w =
     (Normal (),
      w\<lparr>stdout := stdout w @ table_lines rows
            [(''country_code'', ''Country''),
             (''country'', ''Country Name''),
             (''region_code'', ''Region''),
             (''region'', ''Region Name''),
             (''minimum_rate.rate'', ''Min Rate''),
             (''average_rate.rate'', ''Avg Rate'')],
        spinner := spinner w @ [SpinStart ''Fetching summary rates...'',
           SpinSucceed (''Retrieved '' @ to_string (Num (Finite (int (length rows)) 0))
                        @ '' region summaries'')],
        requests := requests w @ [request_of c key ''get'' ''/summary_rates'' None None]\<rparr>)"
proof -
  note fetched = fetch_rows [where net = net, OF key net ok rates,
      of "spin (SpinStart ''Fetching summary rates...'') w"]
  show ?thesis
    unfolding rates_summary_def
    using human
    by (simp add: list_command_rows [where fetch = "getSummaryRates c net",
          OF fetched [folded getSummaryRates_def]] try_catch_def
        printTable_rows [OF rows] spin_def del: to_string.simps)
qed

end
